theory Spec2Isabelle
  imports Complex_Main
begin

section \<open>Numbers and vectors\<close>

text \<open>
  JavaScript numbers are modelled as exact reals: rounding of IEEE doubles is not part of
  the model. Where the source can divide by zero (which in JavaScript gives an infinity or
  NaN and never raises) the model writes the case out instead of using HOL's \<open>x / 0 = 0\<close>.

  \<open>p5.Vector\<close> belongs to the p5.js library, which is not part of this repository; its
  arithmetic (\<open>add\<close>, \<open>sub\<close>, \<open>mult\<close>, \<open>div\<close>, \<open>dot\<close>, \<open>mag\<close>, \<open>magSq\<close>, \<open>normalize\<close>, \<open>setMag\<close>)
  is the usual arithmetic of the plane. \<open>project\<close>, \<open>isParallel\<close> and \<open>transform\<close> are
  the extensions that p5.play.js adds.
\<close>

datatype vec = Vec (vx: real) (vy: real)

definition vzero :: vec where
  "vzero = Vec 0 0"

definition vadd :: "vec \<Rightarrow> vec \<Rightarrow> vec" where
  "vadd a b = Vec (vx a + vx b) (vy a + vy b)"

definition vsub :: "vec \<Rightarrow> vec \<Rightarrow> vec" where
  "vsub a b = Vec (vx a - vx b) (vy a - vy b)"

definition vmult :: "vec \<Rightarrow> real \<Rightarrow> vec" where
  "vmult a n = Vec (vx a * n) (vy a * n)"

definition vdot :: "vec \<Rightarrow> vec \<Rightarrow> real" where
  "vdot a b = vx a * vx b + vy a * vy b"

definition vdiv :: "vec \<Rightarrow> real \<Rightarrow> vec" where
  \<comment> \<open>\<open>p5.Vector.div\<close> with a number: for the divisor 0 p5.js prints a warning and leaves
      the vector as it is\<close>
  "vdiv a n = (if n = 0 then a else Vec (vx a / n) (vy a / n))"

definition magSq :: "vec \<Rightarrow> real" where
  "magSq a = vx a * vx a + vy a * vy a"

definition mag :: "vec \<Rightarrow> real" where
  "mag a = sqrt (magSq a)"

definition normalize :: "vec \<Rightarrow> vec" where
  \<comment> \<open>p5.js: \<open>len = this.mag(); if (len !== 0) this.mult(1 / len)\<close>\<close>
  "normalize a = (if mag a \<noteq> 0 then vmult a (1 / mag a) else a)"

definition setMag :: "vec \<Rightarrow> real \<Rightarrow> vec" where
  \<comment> \<open>p5.js: \<open>this.normalize().mult(n)\<close>\<close>
  "setMag a n = vmult (normalize a) n"

definition project :: "vec \<Rightarrow> vec \<Rightarrow> vec" where
  \<comment> \<open>\<open>p5.Vector.project\<close>. For \<open>b = (0, 0)\<close> JavaScript gives a NaN vector; every call
      in this development passes a non-zero \<open>b\<close>.\<close>
  "project a b = vmult b (vdot a b / vdot b b)"

definition tolerance :: real where
  \<comment> \<open>the default \<open>1e-14\<close> of \<open>isParallel\<close>\<close>
  "tolerance = 1 / 10 ^ 14"

definition isParallel :: "vec \<Rightarrow> vec \<Rightarrow> bool" where
  \<comment> \<open>The third test divides by the components of \<open>v2\<close>. When one of them is zero the
      difference is infinite or NaN in JavaScript, and the comparison is false.\<close>
  "isParallel v1 v2 \<longleftrightarrow>
     (\<bar>vx v1\<bar> < tolerance \<and> \<bar>vx v2\<bar> < tolerance) \<or>
     (\<bar>vy v1\<bar> < tolerance \<and> \<bar>vy v2\<bar> < tolerance) \<or>
     (vx v2 \<noteq> 0 \<and> vy v2 \<noteq> 0 \<and> \<bar>vx v1 / vx v2 - vy v1 / vy v2\<bar> < tolerance)"

section \<open>Transform2D\<close>

text \<open>
  The six stored entries of the 3x3 matrix, row by row: \<open>x' = te0 x + te1 y + te2\<close>,
  \<open>y' = te3 x + te4 y + te5\<close>.
\<close>

datatype transform2d =
  Transform2D (te0: real) (te1: real) (te2: real) (te3: real) (te4: real) (te5: real)

definition t_identity :: transform2d where
  "t_identity = Transform2D 1 0 0 0 1 0"

definition t_mult :: "transform2d \<Rightarrow> transform2d \<Rightarrow> transform2d" where
  "t_mult a b = Transform2D
     (te0 a * te0 b + te1 a * te3 b)
     (te0 a * te1 b + te1 a * te4 b)
     (te0 a * te2 b + te1 a * te5 b + te2 a)
     (te3 a * te0 b + te4 a * te3 b)
     (te3 a * te1 b + te4 a * te4 b)
     (te3 a * te2 b + te4 a * te5 b + te5 a)"

definition t_translate :: "transform2d \<Rightarrow> vec \<Rightarrow> transform2d" where
  "t_translate t v = t_mult (Transform2D 1 0 (vx v) 0 1 (vy v)) t"

definition t_scale :: "transform2d \<Rightarrow> real \<Rightarrow> real \<Rightarrow> transform2d" where
  "t_scale t sx sy = t_mult (Transform2D sx 0 0 0 sy 0) t"

definition t_rotate :: "transform2d \<Rightarrow> real \<Rightarrow> transform2d" where
  "t_rotate t r = t_mult (Transform2D (cos r) (- sin r) 0 (sin r) (cos r) 0) t"

definition atan2 :: "real \<Rightarrow> real \<Rightarrow> real" where
  \<comment> \<open>\<open>Math.atan2(y, x)\<close>, signed zeros apart\<close>
  "atan2 y x =
     (if 0 < x then arctan (y / x)
      else if x < 0 then (if 0 \<le> y then arctan (y / x) + pi else arctan (y / x) - pi)
      else if 0 < y then pi / 2
      else if y < 0 then - pi / 2
      else 0)"

definition js_sign :: "real \<Rightarrow> real" where
  "js_sign x = (if x = 0 then 0 else if 0 < x then 1 else - 1)"

definition getRotation :: "transform2d \<Rightarrow> real" where
  "getRotation t = atan2 (- te1 t) (te0 t)"

definition getScale :: "transform2d \<Rightarrow> vec" where
  "getScale t = Vec (js_sign (te0 t) * sqrt (te0 t * te0 t + te1 t * te1 t))
                    (js_sign (te4 t) * sqrt (te3 t * te3 t + te4 t * te4 t))"

definition transform :: "vec \<Rightarrow> transform2d \<Rightarrow> vec" where
  "transform v t = Vec (te0 t * vx v + te1 t * vy v + te2 t) (te3 t * vx v + te4 t * vy v + te5 t)"

definition radians :: "real \<Rightarrow> real" where
  \<comment> \<open>p5.js \<open>radians\<close>: degrees to radians\<close>
  "radians d = d * pi / 180"

definition degrees :: "real \<Rightarrow> real" where
  "degrees r = r * 180 / pi"

section \<open>Collision shapes\<close>

text \<open>
  The class hierarchy \<open>CollisionShape\<close> / \<open>PointCollider\<close> / \<open>CircleCollider\<close> /
  \<open>AxisAlignedBoundingBoxCollider\<close> / \<open>OrientedBoundingBoxCollider\<close> is flattened into one
  record with a tag; a field that a class does not have is never read for that class.
  \<open>halfDiagonals\<close> always has two entries once a box is constructed and is a pair here.
\<close>

datatype shape_kind = PointCollider | CircleCollider | AABBCollider | OBBCollider

record shape =
  kind :: shape_kind
  localTransform :: transform2d
  parentTransform :: transform2d
  center :: vec
  offset :: vec
  rotation :: real
  scale :: vec
  getsDimensionsFromSprite :: bool
  radius :: real
  scaledRadius :: real
  width :: real
  height :: real
  halfDiagonals :: "vec \<times> vec"
  potentialAxes :: "vec list"

definition X_AXIS :: vec where
  "X_AXIS = Vec 1 0"

definition Y_AXIS :: vec where
  "Y_AXIS = Vec 0 1"

definition WORLD_AXES :: "vec list" where
  "WORLD_AXES = [X_AXIS, Y_AXIS]"

definition computeScaledRadius :: "shape \<Rightarrow> shape" where
  "computeScaledRadius s = s\<lparr>scaledRadius :=
     mag (vsub (transform (transform (Vec (radius s) 0) (localTransform s)) (parentTransform s))
               (center s))\<rparr>"

definition computeHalfDiagonals :: "shape \<Rightarrow> shape" where
  \<comment> \<open>\<open>AxisAlignedBoundingBoxCollider.prototype._computeHalfDiagonals\<close>\<close>
  "computeHalfDiagonals s =
     (let composed = t_mult (parentTransform s) (localTransform s);
          d0 = vsub (transform (Vec (width s / 2) (- height s / 2)) composed) (center s);
          d1 = vsub (transform (Vec (width s / 2) (height s / 2)) composed) (center s);
          d2 = vsub (transform (Vec (- width s / 2) (height s / 2)) composed) (center s);
          halfWidth = max \<bar>vx d0\<bar> \<bar>vx d1\<bar>;
          halfHeight = max \<bar>vy d1\<bar> \<bar>vy d2\<bar>
      in s\<lparr>halfDiagonals := (Vec halfWidth (- halfHeight), Vec halfWidth halfHeight)\<rparr>)"

definition computeOrientedBox :: "shape \<Rightarrow> shape" where
  \<comment> \<open>the part of \<open>OrientedBoundingBoxCollider.prototype._onTransformChanged\<close> after the
      call of the base method\<close>
  "computeOrientedBox s =
     (let composed = t_mult (parentTransform s) (localTransform s);
          v0 = transform (Vec (width s / 2) (- height s / 2)) composed;
          v1 = transform (Vec (width s / 2) (height s / 2)) composed;
          v2 = transform (Vec (- width s / 2) (height s / 2)) composed
      in s\<lparr>halfDiagonals := (vsub v0 (center s), vsub v1 (center s)),
            potentialAxes := [vsub v1 v2, vsub v1 v0]\<rparr>)"

definition onTransformChanged :: "shape \<Rightarrow> shape" where
  "onTransformChanged s =
     (let off = transform (Vec 0 0) (localTransform s);
          base = s\<lparr>rotation := getRotation (localTransform s),
                   scale := getScale (localTransform s),
                   offset := off,
                   center := transform off (parentTransform s)\<rparr>
      in case kind s of
           PointCollider \<Rightarrow> base
         | CircleCollider \<Rightarrow> computeScaledRadius base
         | AABBCollider \<Rightarrow> computeHalfDiagonals base
         | OBBCollider \<Rightarrow> computeOrientedBox base)"


definition setCenter :: "shape \<Rightarrow> vec \<Rightarrow> shape" where
  \<comment> \<open>the setter of the property \<open>center\<close>\<close>
  "setCenter s c = onTransformChanged
     (s\<lparr>localTransform := t_translate (t_translate (localTransform s) (vmult (center s) (- 1))) c\<rparr>)"

definition newCollisionShape :: "shape_kind \<Rightarrow> vec option \<Rightarrow> real \<Rightarrow> shape" where
  \<comment> \<open>the constructor \<open>p5.CollisionShape(center, rotation)\<close>, before the subclass sets its
      own fields; an absent rotation is 0 (the constructor skips a falsy rotation)\<close>
  "newCollisionShape k c r =
     (let l0 = (if r \<noteq> 0 then t_rotate t_identity r else t_identity);
          l1 = (case c of None \<Rightarrow> l0 | Some v \<Rightarrow> t_translate l0 v)
      in \<lparr>kind = k, localTransform = l1, parentTransform = t_identity,
          center = vzero, offset = vzero, rotation = 0, scale = Vec 1 1,
          getsDimensionsFromSprite = False, radius = 0, scaledRadius = 0,
          width = 0, height = 0, halfDiagonals = (vzero, vzero), potentialAxes = []\<rparr>)"

definition newPointCollider :: "vec option \<Rightarrow> shape" where
  "newPointCollider c = onTransformChanged (newCollisionShape PointCollider c 0)"

definition newCircleCollider :: "vec option \<Rightarrow> real \<Rightarrow> shape" where
  "newCircleCollider c r = onTransformChanged ((newCollisionShape CircleCollider c 0)\<lparr>radius := r\<rparr>)"

definition newAABBCollider :: "vec option \<Rightarrow> real \<Rightarrow> real \<Rightarrow> shape" where
  "newAABBCollider c w h =
     onTransformChanged ((newCollisionShape AABBCollider c 0)\<lparr>width := w, height := h\<rparr>)"

definition newOBBCollider :: "vec option \<Rightarrow> real \<Rightarrow> real \<Rightarrow> real \<Rightarrow> shape" where
  "newOBBCollider c w h r =
     onTransformChanged ((newCollisionShape OBBCollider c r)\<lparr>width := w, height := h\<rparr>)"

subsection \<open>Separating axes\<close>

definition getRadiusOnAxis :: "shape \<Rightarrow> vec \<Rightarrow> real" where
  "getRadiusOnAxis s axis =
     (case kind s of
        PointCollider \<Rightarrow> 0
      | CircleCollider \<Rightarrow> scaledRadius s
      | _ \<Rightarrow> max (mag (project (fst (halfDiagonals s)) axis))
                 (mag (project (snd (halfDiagonals s)) axis)))"

definition getMinRadius :: "shape \<Rightarrow> real" where
  "getMinRadius s =
     (case kind s of
        PointCollider \<Rightarrow> 0
      | CircleCollider \<Rightarrow> scaledRadius s
      | _ \<Rightarrow> min (width s) (height s))"

definition closer :: "vec \<Rightarrow> vec \<Rightarrow> vec" where
  \<comment> \<open>one round of the \<open>forEach\<close> in \<open>CircleCollider._getCandidateAxes\<close>: the vector kept
      so far is replaced only by a strictly shorter one\<close>
  "closer best v = (if magSq v < magSq best then v else best)"

definition getCandidateAxes :: "shape \<Rightarrow> shape \<Rightarrow> vec list" where
  "getCandidateAxes s other =
     (case kind s of
        PointCollider \<Rightarrow> []
      | CircleCollider \<Rightarrow>
          (if kind other = OBBCollider \<or> kind other = AABBCollider then
             (let h0 = fst (halfDiagonals other); h1 = snd (halfDiagonals other);
                  w0 = vsub (vadd (center other) h0) (center s);
                  w1 = vsub (vadd (center other) h1) (center s);
                  w2 = vsub (vsub (center other) h0) (center s);
                  w3 = vsub (vsub (center other) h1) (center s)
              in [foldl closer w0 [w1, w2, w3]])
           else [vsub (center other) (center s)])
      | AABBCollider \<Rightarrow> WORLD_AXES
      | OBBCollider \<Rightarrow> potentialAxes s)"

fun deduplicateParallelVectors :: "vec list \<Rightarrow> vec list" where
  \<comment> \<open>an item is dropped when a later item of the array is parallel to it\<close>
  "deduplicateParallelVectors [] = []"
| "deduplicateParallelVectors (v # rest) =
     (if list_ex (isParallel v) rest then deduplicateParallelVectors rest
      else v # deduplicateParallelVectors rest)"

definition getCandidateAxesForShapes :: "shape \<Rightarrow> shape \<Rightarrow> vec list" where
  "getCandidateAxesForShapes s1 s2 =
     deduplicateParallelVectors
       (map (\<lambda>axis. if vx axis = 0 \<and> vy axis = 0 then X_AXIS else axis)
            (getCandidateAxes s1 s2 @ getCandidateAxes s2 s1))"

text \<open>
  The loop of \<open>collide\<close>. \<open>best\<close> is the pair \<open>(smallestOverlap, smallestOverlapAxis)\<close>;
  \<open>None\<close> stands for the initial \<open>(Infinity, null)\<close>. The result \<open>None\<close> is the
  \<open>TypeError\<close> of \<open>smallestOverlapAxis.copy()\<close> on \<open>null\<close>.
\<close>

fun collide_loop :: "shape \<Rightarrow> shape \<Rightarrow> vec \<Rightarrow> vec list \<Rightarrow> (real \<times> vec) option \<Rightarrow> vec option" where
  "collide_loop a b delta [] best =
     (case best of None \<Rightarrow> None | Some (ov, ax) \<Rightarrow> Some (setMag ax (- ov)))"
| "collide_loop a b delta (axis # rest) best =
     (let deltaOnAxis = project delta axis;
          distanceOnAxis = mag deltaOnAxis;
          r1 = getRadiusOnAxis a axis;
          r2 = getRadiusOnAxis b axis;
          overlap = r1 + r2 - distanceOnAxis
      in if overlap \<le> 0 then Some vzero
         else if (case best of None \<Rightarrow> True | Some (ov, ax) \<Rightarrow> overlap < ov) then
           collide_loop a b delta rest
             (Some (overlap, if vx deltaOnAxis = 0 \<and> vy deltaOnAxis = 0 then axis else deltaOnAxis))
         else collide_loop a b delta rest best)"

definition collide :: "shape \<Rightarrow> shape \<Rightarrow> vec option" where
  "collide a b =
     collide_loop a b (vsub (center b) (center a)) (getCandidateAxesForShapes a b) None"

definition overlap :: "shape \<Rightarrow> shape \<Rightarrow> bool option" where
  "overlap a b = map_option (\<lambda>d. vx d \<noteq> 0 \<or> vy d \<noteq> 0) (collide a b)"

section \<open>Sprites\<close>

text \<open>
  The movable entity: the fields of \<open>Sprite\<close> that the collision code reads or writes.
  Rendering, input and animation playback are left out; of the current animation only the
  frame size is kept (\<open>animationSize\<close>, \<open>None\<close> when the sprite has no animation), because
  the colliders adopt it. \<open>_getScaleX\<close> and \<open>_getScaleY\<close> are the sprite's \<open>scale\<close> (the mode
  \<open>_fixedSpriteAnimationFrameSizes\<close> is off).
\<close>

record touching_flags =
  t_left :: bool
  t_right :: bool
  t_top :: bool
  t_bottom :: bool

record sprite =
  position :: vec
  previousPosition :: vec
  newPosition :: vec
  velocity :: vec
  sprite_rotation :: real
  rotationSpeed :: real
  rotateToDirection :: bool
  sprite_scale :: real
  sprite_width :: real
  sprite_height :: real
  animationSize :: "(real \<times> real) option"
  friction :: real
  maxSpeed :: real
  mass :: real
  restitution :: real
  immovable :: bool
  removed :: bool
  touching :: touching_flags
  collider :: "shape option"
  sweptCollider :: "shape option"

definition createSprite :: "real \<Rightarrow> real \<Rightarrow> real \<Rightarrow> real \<Rightarrow> sprite" where
  \<comment> \<open>the defaults that the constructor of \<open>Sprite\<close> gives to the fields above\<close>
  "createSprite x y w h =
     \<lparr>position = Vec x y, previousPosition = Vec x y, newPosition = Vec x y,
      velocity = Vec 0 0, sprite_rotation = 0, rotationSpeed = 0, rotateToDirection = False,
      sprite_scale = 1, sprite_width = w, sprite_height = h, animationSize = None,
      friction = 0, maxSpeed = - 1, mass = 1, restitution = 1,
      immovable = False, removed = False,
      touching = \<lparr>t_left = False, t_right = False, t_top = False, t_bottom = False\<rparr>,
      collider = None, sweptCollider = None\<rparr>"

definition getDirection :: "sprite \<Rightarrow> real" where
  \<comment> \<open>always in degrees\<close>
  "getDirection sp = degrees (atan2 (vy (velocity sp)) (vx (velocity sp)))"

definition setParentTransform :: "shape \<Rightarrow> sprite \<Rightarrow> shape" where
  \<comment> \<open>\<open>setParentTransform\<close> called with a sprite; \<open>CircleCollider\<close> overrides it to scale by
      the larger of the two scale factors\<close>
  "setParentTransform s sp =
     (let sx = (if kind s = CircleCollider then max (sprite_scale sp) (sprite_scale sp)
                else sprite_scale sp);
          sy = (if kind s = CircleCollider then max (sprite_scale sp) (sprite_scale sp)
                else sprite_scale sp)
      in onTransformChanged
           (s\<lparr>parentTransform :=
                t_translate (t_rotate (t_scale t_identity sx sy) (radians (sprite_rotation sp)))
                            (position sp)\<rparr>))"

definition updateFromSprite :: "shape \<Rightarrow> sprite \<Rightarrow> shape" where
  "updateFromSprite s sp =
     (case kind s of
        PointCollider \<Rightarrow> setParentTransform s sp
      | CircleCollider \<Rightarrow>
          setParentTransform
            (if getsDimensionsFromSprite s then
               (case animationSize sp of
                  Some (aw, ah) \<Rightarrow> s\<lparr>radius := max aw ah / 2\<rparr>
                | None \<Rightarrow> s\<lparr>radius := max (sprite_width sp) (sprite_height sp) / 2\<rparr>)
             else s) sp
      | _ \<Rightarrow>
          setParentTransform
            (if getsDimensionsFromSprite s then
               (case animationSize sp of
                  Some (aw, ah) \<Rightarrow> s\<lparr>width := aw, height := ah\<rparr>
                | None \<Rightarrow> s\<lparr>width := sprite_width sp, height := sprite_height sp\<rparr>)
             else s) sp)"

definition updateSweptColliderFromSprite :: "shape \<Rightarrow> shape \<Rightarrow> sprite \<Rightarrow> shape" where
  \<comment> \<open>the second argument is \<open>sprite.collider\<close>\<close>
  "updateSweptColliderFromSprite s c sp =
     (let vMagnitude = mag (velocity sp);
          vPerpendicular = Vec (vy (velocity sp)) (- vx (velocity sp));
          w = vMagnitude + 2 * getRadiusOnAxis c (velocity sp);
          h = 2 * getRadiusOnAxis c vPerpendicular;
          newRotation = radians (getDirection sp);
          newCenter = Vec (vx (newPosition sp) + 0.5 * vx (velocity sp))
                          (vy (newPosition sp) + 0.5 * vy (velocity sp));
          l = t_translate
                (t_translate
                  (t_translate
                    (t_rotate (t_scale t_identity (vx (scale s)) (vy (scale s))) newRotation)
                    (offset s))
                  (vmult (center s) (- 1)))
                newCenter
      in onTransformChanged (s\<lparr>width := w, height := h, localTransform := l\<rparr>))"

datatype collider_type = Point | Circle | Aabb | Obb

text \<open>
  \<open>setCollider(type, offsetX, offsetY, width, height, rotation)\<close>. The optional arguments are
  options; the checks of the argument count are not modelled. \<open>'rectangle'\<close> is \<open>Obb\<close>.
  \<open>createVector\<close> and the constructor of \<open>p5.Vector\<close> read a missing number as 0, so an
  absent offset is (0, 0) and the swept collider \<open>new OrientedBoundingBoxCollider()\<close> starts
  as a box of width and height 0.
\<close>

definition setCollider ::
  "sprite \<Rightarrow> collider_type \<Rightarrow> vec \<Rightarrow> (real \<times> real) option \<Rightarrow> real option \<Rightarrow> sprite" where
  "setCollider sp ty off dims rot =
     (let c = (case ty of
                 Point \<Rightarrow> setParentTransform (newPointCollider (Some off)) sp
               | Circle \<Rightarrow>
                   updateFromSprite
                     ((newCircleCollider (Some off) (case dims of Some (w, h) \<Rightarrow> w | None \<Rightarrow> 1))
                        \<lparr>getsDimensionsFromSprite := (dims = None)\<rparr>) sp
               | Aabb \<Rightarrow>
                   updateFromSprite
                     ((newAABBCollider (Some off)
                          (case dims of Some (w, h) \<Rightarrow> w | None \<Rightarrow> 1)
                          (case dims of Some (w, h) \<Rightarrow> h | None \<Rightarrow> 1))
                        \<lparr>getsDimensionsFromSprite := (dims = None)\<rparr>) sp
               | Obb \<Rightarrow>
                   updateFromSprite
                     ((newOBBCollider (Some off)
                          (case dims of Some (w, h) \<Rightarrow> w | None \<Rightarrow> 1)
                          (case dims of Some (w, h) \<Rightarrow> h | None \<Rightarrow> 1)
                          (case rot of Some r \<Rightarrow> radians r | None \<Rightarrow> 0))
                        \<lparr>getsDimensionsFromSprite := (dims = None)\<rparr>) sp)
      in sp\<lparr>collider := Some c, sweptCollider := Some (newOBBCollider None 0 0 0)\<rparr>)"

definition setDefaultCollider :: "sprite \<Rightarrow> sprite" where
  \<comment> \<open>nothing is created while the animation is still loading (frame size 1 x 1)\<close>
  "setDefaultCollider sp =
     (if animationSize sp = Some (1, 1) then sp else setCollider sp Obb (Vec 0 0) None None)"

definition setRotation :: "sprite \<Rightarrow> real \<Rightarrow> sprite" where
  \<comment> \<open>the setter of the property \<open>rotation\<close>: with \<open>rotateToDirection\<close> it calls
      \<open>setSpeed(getSpeed(), value)\<close>\<close>
  "setRotation sp v =
     (let s1 = sp\<lparr>sprite_rotation := v\<rparr>
      in if rotateToDirection s1 then
           s1\<lparr>velocity := Vec (cos (radians v) * mag (velocity s1))
                              (sin (radians v) * mag (velocity s1))\<rparr>
         else s1)"

definition limitSpeed :: "sprite \<Rightarrow> real \<Rightarrow> sprite" where
  "limitSpeed sp m =
     (let speed = mag (velocity sp)
      in if \<bar>speed\<bar> > m then sp\<lparr>velocity := vmult (velocity sp) (m / \<bar>speed\<bar>)\<rparr> else sp)"

text \<open>
  \<open>Sprite.update\<close>, without the animation and mouse parts. \<open>newPosition\<close> and \<open>position\<close> are
  always different vector objects, so \<open>previousPosition\<close> is taken from \<open>newPosition\<close>.
  The result \<open>None\<close> is the \<open>TypeError\<close> of using a swept collider without a collider.
\<close>

definition update :: "sprite \<Rightarrow> sprite option" where
  "update sp =
     (if removed sp then Some sp
      else
        (case (if sweptCollider sp \<noteq> None \<and> magSq (velocity sp) > 0 then
                 (case collider sp of
                    None \<Rightarrow> None
                  | Some c \<Rightarrow> Some (sp\<lparr>sweptCollider :=
                      Some (updateSweptColliderFromSprite (the (sweptCollider sp)) c sp)\<rparr>))
               else Some sp) of
           None \<Rightarrow> None
         | Some s1 \<Rightarrow>
            (let s2 = s1\<lparr>previousPosition := newPosition s1\<rparr>;
                 s3 = s2\<lparr>velocity := Vec (vx (velocity s2) * (1 - friction s2))
                                        (vy (velocity s2) * (1 - friction s2))\<rparr>;
                 s4 = (if maxSpeed s3 \<noteq> - 1 then limitSpeed s3 (maxSpeed s3) else s3);
                 s5 = (if rotateToDirection s4 \<and> mag (velocity s4) > 0
                       then s4\<lparr>sprite_rotation := getDirection s4\<rparr> else s4);
                 s6 = setRotation s5 (sprite_rotation s5 + rotationSpeed s5);
                 s7 = s6\<lparr>position := vadd (position s6) (velocity s6)\<rparr>;
                 s8 = s7\<lparr>newPosition := position s7\<rparr>
             in Some (case collider s8 of
                        None \<Rightarrow> s8
                      | Some c \<Rightarrow> s8\<lparr>collider := Some (updateFromSprite c s8)\<rparr>))))"

section \<open>Quadtree\<close>

text \<open>
  Sprites are JavaScript objects, compared by reference. A \<open>store\<close> maps a reference (a
  number) to the sprite it points to; the quadtree and the groups hold references.
\<close>

type_synonym ref = nat

type_synonym store = "ref \<Rightarrow> sprite"

record bounding_box =
  bb_top :: real
  bb_bottom :: real
  bb_left :: real
  bb_right :: real
  bb_width :: real
  bb_height :: real

definition getBoundingBox :: "shape \<Rightarrow> bounding_box" where
  "getBoundingBox s =
     (let radiusOnX = getRadiusOnAxis s X_AXIS;
          radiusOnY = getRadiusOnAxis s Y_AXIS
      in \<lparr>bb_top = vy (center s) - radiusOnY,
          bb_bottom = vy (center s) + radiusOnY,
          bb_left = vx (center s) - radiusOnX,
          bb_right = vx (center s) + radiusOnX,
          bb_width = radiusOnX * 2,
          bb_height = radiusOnY * 2\<rparr>)"

datatype bounds = Bounds (b_x: real) (b_y: real) (b_width: real) (b_height: real)

text \<open>
  A node has no subnodes or four of them (\<open>split\<close> creates all four, \<open>clear\<close> removes all).
  \<open>max_objects\<close> and \<open>max_levels\<close> are copied unchanged into every subnode and \<open>level\<close> is
  one more than the parent's, so the functions below take them as arguments \<open>mo\<close>, \<open>ml\<close>
  and \<open>lvl\<close> instead of reading them from the node.
\<close>

datatype quadtree =
  Leaf (qbounds: bounds) (objects: "ref list")
| Split (qbounds: bounds) (objects: "ref list") quadtree quadtree quadtree quadtree

definition js_round :: "real \<Rightarrow> real" where
  \<comment> \<open>\<open>Math.round\<close>: the nearest integer, halves upwards\<close>
  "js_round x = of_int \<lfloor>x + 1 / 2\<rfloor>"

definition newQuadtree :: "bounds \<Rightarrow> quadtree" where
  "newQuadtree b = Leaf b []"

definition default_max_objects :: "nat \<Rightarrow> nat" where
  \<comment> \<open>\<open>max_objects || 10\<close>\<close>
  "default_max_objects n = (if n = 0 then 10 else n)"

definition default_max_levels :: "nat \<Rightarrow> nat" where
  \<comment> \<open>\<open>max_levels || 4\<close>\<close>
  "default_max_levels n = (if n = 0 then 4 else n)"

definition split :: "bounds \<Rightarrow> ref list \<Rightarrow> quadtree" where
  \<comment> \<open>the node with bounds \<open>b\<close> and objects \<open>os\<close> after \<open>split()\<close>\<close>
  "split b os =
     (let subWidth = js_round (b_width b / 2);
          subHeight = js_round (b_height b / 2);
          x = js_round (b_x b);
          y = js_round (b_y b)
      in Split b os
           (newQuadtree (Bounds (x + subWidth) y subWidth subHeight))
           (newQuadtree (Bounds x y subWidth subHeight))
           (newQuadtree (Bounds x (y + subHeight) subWidth subHeight))
           (newQuadtree (Bounds (x + subWidth) (y + subHeight) subWidth subHeight)))"

definition getIndex :: "store \<Rightarrow> bounds \<Rightarrow> ref \<Rightarrow> nat option" where
  \<comment> \<open>\<open>None\<close> is the index \<open>-1\<close>\<close>
  "getIndex w b r =
     (case collider (w r) of
        None \<Rightarrow> None
      | Some c \<Rightarrow>
         (let cb = getBoundingBox c;
              verticalMidpoint = b_x b + b_width b / 2;
              horizontalMidpoint = b_y b + b_height b / 2;
              topQuadrant = (bb_top cb < horizontalMidpoint \<and> bb_bottom cb < horizontalMidpoint);
              bottomQuadrant = (bb_top cb > horizontalMidpoint)
          in if bb_left cb < verticalMidpoint \<and> bb_right cb < verticalMidpoint then
               (if topQuadrant then Some 1 else if bottomQuadrant then Some 2 else None)
             else if bb_left cb > verticalMidpoint then
               (if topQuadrant then Some 0 else if bottomQuadrant then Some 3 else None)
             else None))"

fun subnode :: "quadtree \<Rightarrow> nat \<Rightarrow> quadtree" where
  \<comment> \<open>\<open>this.nodes[i]\<close> of a node that has subnodes, for \<open>i\<close> from 0 to 3\<close>
  "subnode (Split b os n0 n1 n2 n3) i = (if i = 0 then n0 else if i = 1 then n1 else if i = 2 then n2 else n3)"
| "subnode (Leaf b os) i = Leaf b os"

fun set_subnode :: "quadtree \<Rightarrow> nat \<Rightarrow> quadtree \<Rightarrow> quadtree" where
  "set_subnode (Split b os n0 n1 n2 n3) i t =
     (if i = 0 then Split b os t n1 n2 n3 else if i = 1 then Split b os n0 t n2 n3
      else if i = 2 then Split b os n0 n1 t n3 else Split b os n0 n1 n2 t)"
| "set_subnode (Leaf b os) i t = Leaf b os"

fun set_objects :: "quadtree \<Rightarrow> ref list \<Rightarrow> quadtree" where
  "set_objects (Split b os n0 n1 n2 n3) os' = Split b os' n0 n1 n2 n3"
| "set_objects (Leaf b os) os' = Leaf b os'"

text \<open>
  \<open>insert\<close>. The \<open>while\<close> loop at its end walks \<open>this.objects\<close> once: an object that fits a
  subnode is spliced out and inserted there, the others stay in order; it is the \<open>foldl\<close>
  below, whose state is the node (with the objects kept so far).
\<close>

function (sequential) insert :: "store \<Rightarrow> nat \<Rightarrow> nat \<Rightarrow> nat \<Rightarrow> ref \<Rightarrow> quadtree \<Rightarrow> quadtree" where
  "insert w mo ml lvl obj (Leaf b os) =
     (if obj \<in> set os then Leaf b os
      else
        (let os' = os @ [obj]
         in if length os' > mo \<and> lvl < ml then
              foldl (\<lambda>t r. case getIndex w b r of
                              None \<Rightarrow> set_objects t (objects t @ [r])
                            | Some i \<Rightarrow> set_subnode t i (insert w mo ml (lvl + 1) r (subnode t i)))
                    (split b []) os'
            else Leaf b os'))"
| "insert w mo ml lvl obj (Split b os n0 n1 n2 n3) =
     (if obj \<in> set os then Split b os n0 n1 n2 n3
      else
        (case getIndex w b obj of
           Some i \<Rightarrow>
             set_subnode (Split b os n0 n1 n2 n3) i
               (insert w mo ml (lvl + 1) obj (subnode (Split b os n0 n1 n2 n3) i))
         | None \<Rightarrow>
            (let os' = os @ [obj]
             in if length os' > mo \<and> lvl < ml then
                  foldl (\<lambda>t r. case getIndex w b r of
                                  None \<Rightarrow> set_objects t (objects t @ [r])
                                | Some i \<Rightarrow> set_subnode t i (insert w mo ml (lvl + 1) r (subnode t i)))
                        (Split b [] n0 n1 n2 n3) os'
                else Split b os' n0 n1 n2 n3)))"
  by pat_completeness auto

fun retrieve :: "store \<Rightarrow> quadtree \<Rightarrow> ref \<Rightarrow> ref list" where
  "retrieve w (Leaf b os) r = os"
| "retrieve w (Split b os n0 n1 n2 n3) r =
     (case getIndex w b r of
        Some i \<Rightarrow> os @ (if i = 0 then retrieve w n0 r else if i = 1 then retrieve w n1 r
                        else if i = 2 then retrieve w n2 r else retrieve w n3 r)
      | None \<Rightarrow> os @ retrieve w n0 r @ retrieve w n1 r @ retrieve w n2 r @ retrieve w n3 r)"

definition retrieveFromGroup :: "store \<Rightarrow> quadtree \<Rightarrow> ref \<Rightarrow> ref list \<Rightarrow> ref list" where
  "retrieveFromGroup w t r grp = filter (\<lambda>c. c \<in> set grp) (retrieve w t r)"

fun getAll :: "quadtree \<Rightarrow> ref list" where
  "getAll (Leaf b os) = os"
| "getAll (Split b os n0 n1 n2 n3) = os @ getAll n0 @ getAll n1 @ getAll n2 @ getAll n3"

definition clear :: "quadtree \<Rightarrow> quadtree" where
  "clear t = Leaf (qbounds t) []"

definition cleanup :: "store \<Rightarrow> nat \<Rightarrow> nat \<Rightarrow> nat \<Rightarrow> quadtree \<Rightarrow> quadtree" where
  "cleanup w mo ml lvl t = foldl (\<lambda>t r. insert w mo ml lvl r t) (clear t) (getAll t)"

termination insert
  apply (relation "measures [\<lambda>(w, mo, ml, lvl, obj, t). ml - lvl, \<lambda>(w, mo, ml, lvl, obj, t). size t]")
  apply auto
  done

section \<open>Swept collision and the resolver\<close>

text \<open>
  In this section the result \<open>None\<close> of a function means that the JavaScript call does not
  return a value: it ends in a \<open>TypeError\<close> (a method called on \<open>undefined\<close> or \<open>null\<close>)
  or, for the loop of \<open>_collideWith\<close>, it may also never end.
\<close>

definition getBroadPhaseCollider :: "sprite \<Rightarrow> shape option" where
  "getBroadPhaseCollider sp = (if magSq (velocity sp) > 0 then sweptCollider sp else collider sp)"

definition doSweptCollidersOverlap :: "sprite \<Rightarrow> sprite \<Rightarrow> bool option" where
  "doSweptCollidersOverlap this target =
     (case (getBroadPhaseCollider this, getBroadPhaseCollider target) of
        (Some a, Some b) \<Rightarrow> map_option (\<lambda>d. vx d \<noteq> 0 \<or> vy d \<noteq> 0) (collide a b)
      | _ \<Rightarrow> None)"

definition sweepTimestep :: "real \<Rightarrow> real \<Rightarrow> real option" where
  \<comment> \<open>\<open>Math.max(0.015, radius / relativeVelocity)\<close>. For a relative velocity of 0 the
      quotient is \<open>Infinity\<close>, \<open>NaN\<close> or \<open>-Infinity\<close>; in the first two cases the test
      \<open>timestep < 1\<close> is false, which is the result \<open>None\<close> here.\<close>
  "sweepTimestep r relativeVelocity =
     (if relativeVelocity = 0 then (if r < 0 then Some (15 / 1000) else None)
      else Some (max (15 / 1000) (r / relativeVelocity)))"

definition sampleTimestep :: "sprite \<Rightarrow> sprite \<Rightarrow> shape \<Rightarrow> shape \<Rightarrow> real option" where
  \<comment> \<open>the \<open>timestep\<close> of \<open>_findDisplacement\<close>; the shapes are the colliders of the sprites\<close>
  "sampleTimestep this target c d =
     (let radiusOnVelocityAxis = max (getMinRadius c) (getMinRadius d);
          relativeVelocity = mag (vsub (velocity this) (velocity target))
      in sweepTimestep radiusOnVelocityAxis relativeVelocity)"

text \<open>
  The sampling loop \<open>for (i = timestep; i < 1; i += timestep)\<close> of \<open>_findDisplacement\<close>.
  Its result is the displacement, if a sample collided, and the two sprites as the loop
  leaves them. The test \<open>0 < ts\<close> only makes the definition total: the timestep is at least
  0.015 at the only call.
\<close>

function sweep ::
  "real \<Rightarrow> real \<Rightarrow> vec \<Rightarrow> vec \<Rightarrow> vec \<Rightarrow> vec \<Rightarrow> sprite \<Rightarrow> sprite
     \<Rightarrow> (vec option \<times> sprite \<times> sprite) option" where
  "sweep ts i thisDelta targetDelta thisOriginal targetOriginal this target =
     (if i < 1 \<and> 0 < ts then
        (let this1 = this\<lparr>position := vadd (position this) thisDelta\<rparr>;
             target1 = target\<lparr>position := vadd (position target) targetDelta\<rparr>
         in case (collider this1, collider target1) of
              (Some c, Some d) \<Rightarrow>
                (let c' = updateFromSprite c this1;
                     d' = updateFromSprite d target1;
                     this2 = this1\<lparr>collider := Some c'\<rparr>;
                     target2 = target1\<lparr>collider := Some d'\<rparr>
                 in case collide c' d' of
                      None \<Rightarrow> None
                    | Some displacement \<Rightarrow>
                        if vx displacement \<noteq> 0 \<or> vy displacement \<noteq> 0 then
                          Some (Some displacement,
                                (if immovable this2 then this2\<lparr>position := thisOriginal\<rparr> else this2),
                                (if immovable target2 then target2\<lparr>position := targetOriginal\<rparr>
                                 else target2))
                        else sweep ts (i + ts) thisDelta targetDelta thisOriginal targetOriginal
                               this2 target2)
            | _ \<Rightarrow> None)
      else Some (None, this, target))"
  by pat_completeness auto
termination
proof (relation "measure (\<lambda>(ts, i, r). nat \<lceil>(1 - i) / ts\<rceil>)", goal_cases)
  case 1
  show ?case by simp
next
  case (2 ts i)
  then have "0 < ts" "i < 1" by simp_all
  then have "(1 - (i + ts)) / ts = (1 - i) / ts - 1" by (simp add: field_simps)
  moreover have "0 < (1 - i) / ts" using \<open>0 < ts\<close> \<open>i < 1\<close> by simp
  then have "0 < \<lceil>(1 - i) / ts\<rceil>" by simp
  ultimately show ?case by simp
qed

definition finalCheck :: "sprite \<Rightarrow> sprite \<Rightarrow> (vec \<times> sprite \<times> sprite) option" where
  \<comment> \<open>the last three statements of \<open>_findDisplacement\<close>\<close>
  "finalCheck this target =
     (case (collider this, collider target) of
        (Some c, Some d) \<Rightarrow>
          (let c' = updateFromSprite c this; d' = updateFromSprite d target
           in map_option (\<lambda>displacement. (displacement, this\<lparr>collider := Some c'\<rparr>,
                                                         target\<lparr>collider := Some d'\<rparr>))
                         (collide c' d'))
      | _ \<Rightarrow> None)"

definition findDisplacement :: "sprite \<Rightarrow> sprite \<Rightarrow> (vec \<times> sprite \<times> sprite) option" where
  "findDisplacement this target =
     (case doSweptCollidersOverlap this target of
        None \<Rightarrow> None
      | Some False \<Rightarrow> finalCheck this target
      | Some True \<Rightarrow>
         (case (collider this, collider target) of
            (Some c, Some d) \<Rightarrow>
              (case sampleTimestep this target c d of
                    None \<Rightarrow> finalCheck this target
                  | Some timestep \<Rightarrow>
                      if timestep < 1 then
                        (let thisOriginalPosition = position this;
                             targetOriginalPosition = position target;
                             this1 = this\<lparr>position := previousPosition this\<rparr>;
                             target1 = target\<lparr>position := previousPosition target\<rparr>;
                             thisDelta = vmult (vsub thisOriginalPosition (previousPosition this)) timestep;
                             targetDelta =
                               vmult (vsub targetOriginalPosition (previousPosition target)) timestep
                         in case sweep timestep timestep thisDelta targetDelta
                                   thisOriginalPosition targetOriginalPosition this1 target1 of
                              None \<Rightarrow> None
                            | Some (Some displacement, this2, target2) \<Rightarrow>
                                Some (displacement, this2, target2)
                            | Some (None, this2, target2) \<Rightarrow>
                                finalCheck (this2\<lparr>position := thisOriginalPosition\<rparr>)
                                           (target2\<lparr>position := targetOriginalPosition\<rparr>))
                      else finalCheck this target)
          | _ \<Rightarrow> None))"

datatype collision_type = Overlap | IsTouching | Displace | Collide | Bounce | BounceOff

text \<open>
  The state of a call of the resolver: the store of sprites, the groups (a \<open>Group\<close> is an
  array of sprites; groups are referred to by number) and the log of the calls of the caller's
  callback, as pairs (self, other). A callback is any function on the sprites and the groups.
  The field \<open>groups\<close> of a sprite (the groups that hold it) is not modelled.
\<close>

type_synonym gid = nat

type_synonym heap = "store \<times> (gid \<Rightarrow> ref list)"

record world =
  sprites :: store
  groups :: "gid \<Rightarrow> ref list"
  calls :: "(ref \<times> ref) list"

type_synonym callback = "ref \<Rightarrow> ref \<Rightarrow> heap \<Rightarrow> heap"

definition setTouching :: "sprite \<Rightarrow> vec \<Rightarrow> sprite" where
  "setTouching sp displacement =
     sp\<lparr>touching :=
        \<lparr>t_left = (if vx displacement > 0 then True else t_left (touching sp)),
         t_right = (if vx displacement < 0 then True else t_right (touching sp)),
         t_top = (if vy displacement > 0 then True else t_top (touching sp)),
         t_bottom = (if vy displacement < 0 then True else t_bottom (touching sp))\<rparr>\<rparr>"

definition applyDisplacement ::
  "collision_type \<Rightarrow> vec \<Rightarrow> sprite \<Rightarrow> sprite \<Rightarrow> (sprite \<times> sprite) option" where
  "applyDisplacement ty displacement this other =
     (if ty = Displace \<and> \<not> immovable other then
        Some (this, other\<lparr>position := vsub (position other) displacement\<rparr>)
      else if (ty = Collide \<or> ty = Bounce \<or> ty = BounceOff) \<and> \<not> immovable this then
        (let p = vadd (position this) displacement;
             this1 = this\<lparr>position := p, previousPosition := p, newPosition := p\<rparr>
         in case collider this1 of
              None \<Rightarrow> None
            | Some c \<Rightarrow> Some (this1\<lparr>collider := Some (updateFromSprite c this1)\<rparr>, other))
      else Some (this, other))"

text \<open>
  The velocity response. \<open>otherImmovable\<close> and \<open>otherRestitution\<close> are the values that
  \<open>other.immovable\<close> and \<open>other.restitution\<close> have while the velocities are computed (they
  are overridden for \<open>collide\<close> and \<open>bounceOff\<close> and restored afterwards).
\<close>

definition bounceVelocities ::
  "vec \<Rightarrow> bool \<Rightarrow> real \<Rightarrow> sprite \<Rightarrow> sprite \<Rightarrow> sprite \<times> sprite" where
  "bounceVelocities displacement otherImmovable otherRestitution this other =
     (let thisInitialVelocity = project (velocity this) displacement;
          otherInitialVelocity = project (velocity other) displacement;
          thisMass = (if immovable this then 1 else if otherImmovable then 0 else mass this);
          otherMass = (if immovable this then 0 else if otherImmovable then 1 else mass other);
          combinedMass = thisMass + otherMass;
          coefficientOfRestitution = restitution this * otherRestitution;
          initialMomentum = vadd (vmult thisInitialVelocity thisMass)
                                 (vmult otherInitialVelocity otherMass);
          thisFinalVelocity =
            vdiv (vadd (vmult (vsub otherInitialVelocity thisInitialVelocity)
                              (otherMass * coefficientOfRestitution))
                       initialMomentum) combinedMass;
          otherFinalVelocity =
            vdiv (vadd (vmult (vsub thisInitialVelocity otherInitialVelocity)
                              (thisMass * coefficientOfRestitution))
                       initialMomentum) combinedMass
      in (this\<lparr>velocity := vadd (vsub (velocity this) thisInitialVelocity) thisFinalVelocity\<rparr>,
          other\<lparr>velocity := vadd (vsub (velocity other) otherInitialVelocity) otherFinalVelocity\<rparr>))"

definition respond :: "collision_type \<Rightarrow> vec \<Rightarrow> sprite \<Rightarrow> sprite \<Rightarrow> sprite \<times> sprite" where
  \<comment> \<open>the block of \<open>_collideWithOne\<close> from \<open>originalType = type\<close> to the restoring of the
      overridden properties\<close>
  "respond ty displacement this other =
     (case ty of
        Collide \<Rightarrow> bounceVelocities displacement True 0 this other
      | BounceOff \<Rightarrow> bounceVelocities displacement True (restitution other) this other
      | Bounce \<Rightarrow> bounceVelocities displacement (immovable other) (restitution other) this other
      | _ \<Rightarrow> (this, other))"

definition collideWithOne ::
  "collision_type \<Rightarrow> ref \<Rightarrow> ref \<Rightarrow> callback option \<Rightarrow> world \<Rightarrow> (bool \<times> world) option" where
  "collideWithOne ty this other cb w =
     (if other = this \<or> removed (sprites w other) then Some (False, w)
      else
        (let a0 = sprites w this;
             a1 = (if collider a0 = None then setDefaultCollider a0 else a0);
             b0 = sprites w other;
             b1 = (if collider b0 = None then setDefaultCollider b0 else b0)
         in if collider a1 = None \<or> collider b1 = None then
              Some (False, w\<lparr>sprites := (sprites w)(this := a1, other := b1)\<rparr>)
            else
              (case findDisplacement a1 b1 of
                 None \<Rightarrow> None
               | Some (displacement, a2, b2) \<Rightarrow>
                   if vx displacement = 0 \<and> vy displacement = 0 then
                     Some (False, w\<lparr>sprites := (sprites w)(this := a2, other := b2)\<rparr>)
                   else
                     (case applyDisplacement ty displacement (setTouching a2 displacement) b2 of
                        None \<Rightarrow> None
                      | Some (a3, b3) \<Rightarrow>
                         (let (a4, b4) = respond ty displacement a3 b3;
                              st = (sprites w)(this := a4, other := b4)
                          in case cb of
                               Some f \<Rightarrow>
                                 if ty \<noteq> IsTouching then
                                   (let (st', gs') = f this other (st, groups w)
                                    in Some (True, w\<lparr>sprites := st', groups := gs',
                                                       calls := calls w @ [(this, other)]\<rparr>))
                                 else Some (True, w\<lparr>sprites := st\<rparr>)
                             | None \<Rightarrow> Some (True, w\<lparr>sprites := st\<rparr>))))))"

text \<open>
  \<open>_collideWith\<close>. \<open>qt\<close> is \<open>pInst.quadTree\<close> with its flag \<open>active\<close> and the arguments of its
  constructor. The array \<open>others\<close> that the loop walks is a new array (for a single sprite, and
  for what the quadtree retrieved) or the group itself, the caller's array: then the loop
  reads the group as it is in each round, with the changes a callback has made to it.
\<close>

datatype target = TargetSprite ref | TargetGroup gid

datatype others = Fresh "ref list" | Alias gid

definition resetTouching :: "ref \<Rightarrow> world \<Rightarrow> world" where
  "resetTouching this w =
     w\<lparr>sprites := (sprites w)(this := (sprites w this)\<lparr>touching :=
          \<lparr>t_left = False, t_right = False, t_top = False, t_bottom = False\<rparr>\<rparr>)\<rparr>"

definition getOthers :: "(bool \<times> quadtree) \<Rightarrow> ref \<Rightarrow> target \<Rightarrow> world \<Rightarrow> others" where
  "getOthers qt this tgt w =
     (case tgt of
        TargetSprite r \<Rightarrow> Fresh [r]
      | TargetGroup g \<Rightarrow>
          (let found = (if fst qt then retrieveFromGroup (sprites w) (snd qt) this (groups w g) else [])
           in if found = [] then Alias g else Fresh found))"

definition elements :: "others \<Rightarrow> world \<Rightarrow> ref list" where
  \<comment> \<open>the array \<open>others\<close> as it is in a state\<close>
  "elements os w = (case os of Fresh xs \<Rightarrow> xs | Alias g \<Rightarrow> groups w g)"

text \<open>The loop \<open>for (i = 0; i < others.length; i++)\<close>. A callback can lengthen the group in
  every round, and then the loop does not end.\<close>

partial_function (option) collideWith_loop ::
  "collision_type \<Rightarrow> ref \<Rightarrow> callback option \<Rightarrow> others \<Rightarrow> nat \<Rightarrow> bool \<Rightarrow> world
     \<Rightarrow> (bool \<times> world) option" where
  "collideWith_loop ty this cb os i result w =
     (if i < length (elements os w) then
        Option.bind (collideWithOne ty this (elements os w ! i) cb w)
          (\<lambda>(r, w'). collideWith_loop ty this cb os (Suc i) (r \<or> result) w')
      else Some (result, w))"

definition collideWith ::
  "(bool \<times> quadtree) \<Rightarrow> collision_type \<Rightarrow> ref \<Rightarrow> target \<Rightarrow> callback option \<Rightarrow> world
     \<Rightarrow> (bool \<times> world) option" where
  "collideWith qt ty this tgt cb w =
     (let w0 = resetTouching this w
      in if removed (sprites w0 this) then Some (False, w0)
         else collideWith_loop ty this cb (getOthers qt this tgt w0) 0 False w0)"

text \<open>The public entry points of a sprite. \<open>isTouching\<close> is the same function object as
  \<open>overlap\<close>.\<close>

definition sprite_overlap where
  "sprite_overlap qt this tgt cb w = collideWith qt Overlap this tgt cb w"


definition sprite_collide where
  "sprite_collide qt this tgt cb w = collideWith qt Collide this tgt cb w"

definition sprite_displace where
  "sprite_displace qt this tgt cb w = collideWith qt Displace this tgt cb w"

definition sprite_bounce where
  "sprite_bounce qt this tgt cb w = collideWith qt Bounce this tgt cb w"

definition sprite_bounceOff where
  "sprite_bounceOff qt this tgt cb w = collideWith qt BounceOff this tgt cb w"

section \<open>Notions used in the statements\<close>

definition boxes_intersect :: "bounding_box \<Rightarrow> bounding_box \<Rightarrow> bool" where
  \<comment> \<open>two axis-aligned boxes have a point in common\<close>
  "boxes_intersect p q \<longleftrightarrow>
     bb_left p \<le> bb_right q \<and> bb_left q \<le> bb_right p \<and>
     bb_top p \<le> bb_bottom q \<and> bb_top q \<le> bb_bottom p"

fun hasSubnodes :: "quadtree \<Rightarrow> bool" where
  "hasSubnodes (Leaf b os) = False"
| "hasSubnodes (Split b os n0 n1 n2 n3) = True"

fun routed :: "store \<Rightarrow> quadtree \<Rightarrow> bool" where
  \<comment> \<open>every object below a subnode is one that \<open>getIndex\<close> sends to that subnode\<close>
  "routed w (Leaf b os) = True"
| "routed w (Split b os n0 n1 n2 n3) =
     (list_all (\<lambda>r. getIndex w b r = Some 0) (getAll n0) \<and>
      list_all (\<lambda>r. getIndex w b r = Some 1) (getAll n1) \<and>
      list_all (\<lambda>r. getIndex w b r = Some 2) (getAll n2) \<and>
      list_all (\<lambda>r. getIndex w b r = Some 3) (getAll n3) \<and>
      routed w n0 \<and> routed w n1 \<and> routed w n2 \<and> routed w n3)"

text \<open>A store for examples: sprite \<open>n\<close> carries a circle of radius 1 centred at \<open>(n, 0)\<close>.\<close>

definition unit_circles :: store where
  "unit_circles = (\<lambda>n. (createSprite 0 0 0 0)\<lparr>collider := Some (newCircleCollider (Some (Vec (real n) 0)) 1)\<rparr>)"

text \<open>The number of rounds of the header \<open>for (i = timestep; i < 1; i += timestep)\<close> when
  no round leaves the loop early, counted from the current value of \<open>i\<close>.\<close>

function sampleCount :: "real \<Rightarrow> real \<Rightarrow> nat" where
  "sampleCount ts i = (if i < 1 \<and> 0 < ts then Suc (sampleCount ts (i + ts)) else 0)"
  by pat_completeness auto
termination
proof (relation "measure (\<lambda>(ts, i). nat \<lceil>(1 - i) / ts\<rceil>)", goal_cases)
  case 1
  show ?case by simp
next
  case (2 ts i)
  then have "0 < ts" "i < 1" by simp_all
  then have "(1 - (i + ts)) / ts = (1 - i) / ts - 1" by (simp add: field_simps)
  moreover have "0 < (1 - i) / ts" using \<open>0 < ts\<close> \<open>i < 1\<close> by simp
  then have "0 < \<lceil>(1 - i) / ts\<rceil>" by simp
  ultimately show ?case by simp
qed

text \<open>The circle collider with local offset \<open>off\<close> and radius \<open>r\<close> as it is cached for a
  sprite of scale 1 and rotation 0 at position \<open>p\<close>.\<close>

definition circleAt :: "vec \<Rightarrow> real \<Rightarrow> vec \<Rightarrow> shape" where
  "circleAt off r p =
     \<lparr>kind = CircleCollider,
      localTransform = Transform2D 1 0 (vx off) 0 1 (vy off),
      parentTransform = Transform2D 1 0 (vx p) 0 1 (vy p),
      center = vadd off p, offset = off, rotation = 0, scale = Vec 1 1,
      getsDimensionsFromSprite = False, radius = r, scaledRadius = \<bar>r\<bar>,
      width = 0, height = 0, halfDiagonals = (vzero, vzero), potentialAxes = []\<rparr>"

text \<open>The sprites of the examples: \<open>resting x r\<close> is a sprite at \<open>(x, 0)\<close> with a circle
  collider of radius \<open>r\<close> and no velocity; \<open>runner\<close> is a circle of radius 1 at (0, 0) with
  velocity (100, 0), before its \<open>update()\<close>.\<close>

definition resting :: "real \<Rightarrow> real \<Rightarrow> sprite" where
  "resting x r = setCollider (createSprite x 0 100 100) Circle (Vec 0 0) (Some (r, r)) None"

definition runner :: sprite where
  "runner = (setCollider (createSprite 0 0 100 100) Circle (Vec 0 0) (Some (1, 1)) None)
              \<lparr>velocity := Vec 100 0\<rparr>"

text \<open>The swept collider of a sprite that moves along the X axis, as
  \<open>updateSweptColliderFromSprite\<close> caches it: an unrotated box of width \<open>w\<close> and height \<open>h\<close>
  with centre \<open>c\<close>.\<close>

definition boxAt :: "real \<Rightarrow> real \<Rightarrow> vec \<Rightarrow> shape" where
  "boxAt w h c =
     \<lparr>kind = OBBCollider,
      localTransform = Transform2D 1 0 (vx c) 0 1 (vy c),
      parentTransform = Transform2D 1 0 0 0 1 0,
      center = c, offset = c, rotation = 0, scale = Vec 1 1,
      getsDimensionsFromSprite = False, radius = 0, scaledRadius = 0,
      width = w, height = h,
      halfDiagonals = (Vec (w / 2) (- h / 2), Vec (w / 2) (h / 2)),
      potentialAxes = [Vec w 0, Vec 0 h]\<rparr>"

text \<open>The moving sprite after its \<open>update()\<close>: it is at (100, 0), came from (0, 0), and its
  swept collider covers the path.\<close>

definition movedRunner :: sprite where
  "movedRunner = (createSprite 0 0 100 100)\<lparr>position := Vec 100 0, newPosition := Vec 100 0,
       velocity := Vec 100 0, collider := Some (circleAt (Vec 0 0) 1 (Vec 100 0)),
       sweptCollider := Some (boxAt 102 2 (Vec 50 0))\<rparr>"

text \<open>Two worlds for the examples, with an empty callback log: the moving sprite (reference 0)
  and a resting circle of radius 1 at (50, 0) (every other reference), with empty groups; and
  resting circles, one of radius 5 at (0, 0) (reference 0) and the others of radius 4 at
  (8, 0), where every group is the array of the sprites 1 and 2.\<close>

definition tunnelWorld :: world where
  "tunnelWorld = \<lparr>sprites = (\<lambda>n. if n = 0 then movedRunner else resting 50 1),
                  groups = (\<lambda>g. []), calls = []\<rparr>"

definition restingWorld :: world where
  "restingWorld = \<lparr>sprites = (\<lambda>n. if n = 0 then resting 0 5 else resting 8 4),
                   groups = (\<lambda>g. [1, 2]), calls = []\<rparr>"

definition noQuadtree :: "bool \<times> quadtree" where
  \<comment> \<open>the quadtree as the library creates it: inactive and empty\<close>
  "noQuadtree = (False, newQuadtree (Bounds 0 0 0 0))"




definition groupRemove :: "gid \<Rightarrow> ref \<Rightarrow> heap \<Rightarrow> heap" where
  "groupRemove g item h = (fst h, (snd h)(g := filter (\<lambda>x. x \<noteq> item) (snd h g)))"

definition dropOther :: callback where
  "dropOther a b h = groupRemove 0 b h"

text \<open>A callback keeps the array \<open>others\<close> when no call of it changes the group that the
  array is; an array made for the call is out of its reach.\<close>

definition keepsOthers :: "callback option \<Rightarrow> others \<Rightarrow> bool" where
  "keepsOthers cb os =
     (case (cb, os) of
        (Some f, Alias g) \<Rightarrow> (\<forall>a b h. snd (f a b h) g = snd h g)
      | _ \<Rightarrow> True)"

definition callsOf :: "bool \<times> world \<Rightarrow> bool \<times> (ref \<times> ref) list" where
  "callsOf res = (fst res, calls (snd res))"

definition positionOf :: "ref \<Rightarrow> bool \<times> world \<Rightarrow> vec" where
  "positionOf r res = position (sprites (snd res) r)"





section \<open>Vector and axis lemmas\<close>

lemma isParallel_neg: "isParallel v (vsub (Vec 0 0) v)"
  unfolding isParallel_def vsub_def tolerance_def
  by (cases v) (auto simp: divide_simps)

lemma vsub_swap: "vsub a b = vsub (Vec 0 0) (vsub b a)"
  by (simp add: vsub_def)

lemma isParallel_delta: "isParallel (vsub b a) (vsub a b)"
  using isParallel_neg[of "vsub b a"] vsub_swap[of a b] by simp

lemma isParallel_X: "isParallel X_AXIS X_AXIS"
  by (simp add: isParallel_def X_AXIS_def tolerance_def)

lemma vec_zero_iff: "(vx v = 0 \<and> vy v = 0) \<longleftrightarrow> v = vzero"
  by (cases v) (simp add: vzero_def)

lemma vsub_zero_iff: "vsub a b = vzero \<longleftrightarrow> a = b"
  by (cases a; cases b) (simp add: vsub_def vzero_def)

lemma magSq_pos: "v \<noteq> vzero \<Longrightarrow> 0 < magSq v"
proof (cases v)
  case (Vec a b)
  assume "v \<noteq> vzero"
  with Vec have "a \<noteq> 0 \<or> b \<noteq> 0" by (auto simp: vzero_def)
  then have "0 < a\<^sup>2 + b\<^sup>2" by (simp add: sum_power2_gt_zero_iff)
  then show ?thesis using Vec by (simp add: magSq_def power2_eq_square)
qed

lemma project_neg: "a \<noteq> b \<Longrightarrow> project (vsub b a) (vsub a b) = vsub b a"
proof -
  assume ab: "a \<noteq> b"
  define d where "d = vsub a b"
  from ab have "0 < magSq d" unfolding d_def by (intro magSq_pos) (simp add: vsub_zero_iff)
  moreover have "vdot d d = magSq d" by (simp only: magSq_def vdot_def)
  ultimately have nz: "vdot d d \<noteq> 0" by linarith
  have e: "vsub b a = vmult d (- 1)" by (simp add: d_def vsub_def vmult_def)
  have "vdot (vmult d (- 1)) d = - vdot d d" by (simp add: vdot_def vmult_def)
  then have "vdot (vmult d (- 1)) d / vdot d d = - 1" using nz by simp
  then have "project (vmult d (- 1)) d = vmult d (- 1)" by (simp add: project_def)
  then show ?thesis using e d_def by simp
qed

lemma mag_setMag: "v \<noteq> vzero \<Longrightarrow> mag (setMag v n) = \<bar>n\<bar>"
proof -
  assume "v \<noteq> vzero"
  then have p: "0 < magSq v" by (rule magSq_pos)
  then have m: "0 < mag v" by (simp add: mag_def)
  have "magSq (setMag v n) = (n / mag v)\<^sup>2 * magSq v"
    using m by (simp add: setMag_def normalize_def vmult_def magSq_def power2_eq_square algebra_simps)
  also have "\<dots> = n\<^sup>2" using p m by (simp add: mag_def power_divide)
  finally show ?thesis by (simp add: mag_def)
qed

lemma collide_loop_single:
  "collide_loop a b delta [axis] None =
     (let p = project delta axis; ov = getRadiusOnAxis a axis + getRadiusOnAxis b axis - mag p
      in if ov \<le> 0 then Some vzero
         else Some (setMag (if vx p = 0 \<and> vy p = 0 then axis else p) (- ov)))"
  by (simp add: Let_def)

lemma mag_zero_iff: "mag v = 0 \<longleftrightarrow> v = vzero"
proof
  assume "mag v = 0"
  then have "magSq v = 0" by (simp add: mag_def)
  then show "v = vzero" using magSq_pos[of v] by fastforce
next
  assume "v = vzero" then show "mag v = 0" by (simp add: mag_def magSq_def vzero_def)
qed

lemma setMag_eq: "v \<noteq> vzero \<Longrightarrow> setMag v n = vmult v (n / mag v)"
  by (simp add: setMag_def normalize_def mag_zero_iff vmult_def)

lemma setMag_nonzero: "v \<noteq> vzero \<Longrightarrow> n \<noteq> 0 \<Longrightarrow> vx (setMag v n) \<noteq> 0 \<or> vy (setMag v n) \<noteq> 0"
proof -
  assume "v \<noteq> vzero" "n \<noteq> 0"
  then have "mag (setMag v n) \<noteq> 0" by (simp add: mag_setMag)
  then have "setMag v n \<noteq> vzero" by (simp add: mag_zero_iff)
  then show ?thesis using vec_zero_iff by blast
qed


lemma project_self: "v \<noteq> vzero \<Longrightarrow> project v v = v"
proof -
  assume "v \<noteq> vzero"
  then have "0 < magSq v" by (rule magSq_pos)
  moreover have "vdot v v = magSq v" by (simp only: magSq_def vdot_def)
  ultimately have "vdot v v / vdot v v = 1" by simp
  then show ?thesis by (cases v) (simp add: project_def vmult_def)
qed

lemma fix_axis_nonzero:
  "v \<noteq> vzero \<Longrightarrow> (if vx v = 0 \<and> vy v = 0 then X_AXIS else v) = v"
  using vec_zero_iff by metis

lemma vdot_nonzero: "d \<noteq> vzero \<Longrightarrow> vdot d d \<noteq> 0"
proof -
  assume "d \<noteq> vzero"
  then have "0 < magSq d" by (rule magSq_pos)
  moreover have "vdot d d = magSq d" by (simp only: magSq_def vdot_def)
  ultimately show ?thesis by linarith
qed

lemma project_project: "d \<noteq> vzero \<Longrightarrow> project (project x d) d = project x d"
proof -
  assume "d \<noteq> vzero"
  then have nz: "vdot d d \<noteq> 0" by (rule vdot_nonzero)
  have e: "vdot (vmult d c) d = c * vdot d d" for c by (simp add: vdot_def vmult_def algebra_simps)
  have p: "vdot (project x d) d = vdot x d"
    unfolding project_def e using nz by simp
  have "project (project x d) d = vmult d (vdot (project x d) d / vdot d d)"
    by (simp only: project_def)
  also have "\<dots> = vmult d (vdot x d / vdot d d)" by (simp only: p)
  also have "\<dots> = project x d" by (simp only: project_def)
  finally show ?thesis .
qed

lemma project_vsub: "project (vsub x y) d = vsub (project x d) (project y d)"
  by (simp add: project_def vsub_def vmult_def vdot_def algebra_simps diff_divide_distrib)

lemma project_vzero: "project vzero d = vzero"
  by (simp add: project_def vzero_def vdot_def vmult_def)

lemma vec_algebra:
  "vsub x x = vzero" "vadd x vzero = x" "vadd vzero x = x" "vsub x vzero = x"
  "vmult vzero c = vzero"
  by (cases x; simp add: vsub_def vadd_def vzero_def vmult_def)+


text \<open>Points and circles: the only candidate axis is the line through the centres.\<close>

lemma round_axes:
  assumes "kind a = PointCollider \<or> kind a = CircleCollider"
    and "kind b = PointCollider \<or> kind b = CircleCollider"
    and "kind a = CircleCollider \<or> kind b = CircleCollider"
  shows "getCandidateAxesForShapes a b =
     (if center a = center b then [X_AXIS]
      else if kind b = CircleCollider then [vsub (center a) (center b)]
      else [vsub (center b) (center a)])"
proof (cases "center a = center b")
  case True
  then show ?thesis using assms
    by (auto simp add: getCandidateAxesForShapes_def getCandidateAxes_def vsub_def isParallel_X)
next
  case False
  then have nz: "vsub (center b) (center a) \<noteq> vzero" "vsub (center a) (center b) \<noteq> vzero"
    by (auto simp: vsub_zero_iff)
  note f = fix_axis_nonzero[OF nz(1)] fix_axis_nonzero[OF nz(2)]
  show ?thesis using assms False
    by (auto simp add: getCandidateAxesForShapes_def getCandidateAxes_def f isParallel_delta)
qed

lemma round_radius:
  "kind a = PointCollider \<or> kind a = CircleCollider \<Longrightarrow>
     getRadiusOnAxis a axis = getRadiusOnAxis a X_AXIS"
  by (auto simp: getRadiusOnAxis_def)

lemma collide_round:
  assumes ka: "kind a = PointCollider \<or> kind a = CircleCollider"
    and kb: "kind b = PointCollider \<or> kind b = CircleCollider"
    and kc: "kind a = CircleCollider \<or> kind b = CircleCollider"
  shows "collide a b =
     (if getRadiusOnAxis a X_AXIS + getRadiusOnAxis b X_AXIS - mag (vsub (center b) (center a)) \<le> 0
      then Some vzero
      else Some (if center a = center b
                 then Vec (- (getRadiusOnAxis a X_AXIS + getRadiusOnAxis b X_AXIS)) 0
                 else vmult (vsub (center b) (center a))
                   (- (getRadiusOnAxis a X_AXIS + getRadiusOnAxis b X_AXIS
                       - mag (vsub (center b) (center a))) / mag (vsub (center b) (center a)))))"
proof (cases "center a = center b")
  case True
  have d0: "vsub (center b) (center a) = vzero" using True by (simp add: vsub_zero_iff)
  have p0: "project vzero X_AXIS = vzero" by (simp add: project_def vzero_def vdot_def vmult_def)
  have m0: "mag vzero = 0" by (simp add: mag_zero_iff)
  have sx: "setMag X_AXIS n = Vec n 0" for n
    by (simp add: setMag_def normalize_def mag_def magSq_def X_AXIS_def vmult_def)
  show ?thesis
    unfolding collide_def round_axes[OF ka kb kc] d0 collide_loop_single
    using True by (simp add: Let_def p0 m0 sx) (simp add: vzero_def)
next
  case False
  let ?d = "vsub (center b) (center a)"
  have dnz: "?d \<noteq> vzero" using False by (auto simp: vsub_zero_iff)
  then have dnz': "\<not> (vx ?d = 0 \<and> vy ?d = 0)" using vec_zero_iff by blast
  have p: "project ?d (vsub (center a) (center b)) = ?d" using False by (rule project_neg)
  have p': "project ?d ?d = ?d" using dnz by (rule project_self)
  have r: "getRadiusOnAxis a ax = getRadiusOnAxis a X_AXIS"
          "getRadiusOnAxis b ax = getRadiusOnAxis b X_AXIS" for ax
    using ka kb round_radius by blast+
  show ?thesis
    unfolding collide_def round_axes[OF ka kb kc] collide_loop_single
    using False dnz' by (auto simp add: Let_def p p' r[of "vsub (center a) (center b)"] r[of ?d] setMag_eq[OF dnz])
qed

section \<open>Evaluation of the example sprites\<close>

lemma atan2_0_1 [simp]: "atan2 0 1 = 0"
  by (simp add: atan2_def)

lemma getRotation_translation [simp]: "getRotation (Transform2D 1 0 a 0 1 b) = 0"
  by (simp add: getRotation_def)

lemma getScale_translation [simp]: "getScale (Transform2D 1 0 a 0 1 b) = Vec 1 1"
  by (simp add: getScale_def js_sign_def)

lemma mag_Vec_x: "mag (Vec x 0) = \<bar>x\<bar>"
  by (simp add: mag_def magSq_def)

lemma newCircleCollider_circleAt:
  "newCircleCollider (Some off) r = circleAt off r (Vec 0 0)"
  by (cases off)
     (simp add: newCircleCollider_def onTransformChanged_def newCollisionShape_def Let_def
      computeScaledRadius_def t_translate_def t_mult_def t_identity_def transform_def vsub_def
      vzero_def mag_Vec_x circleAt_def vadd_def)

lemma sprite_parent:
  "sprite_scale sp = 1 \<Longrightarrow> sprite_rotation sp = 0 \<Longrightarrow>
   t_translate (t_rotate (t_scale t_identity 1 1) (radians 0)) (position sp)
     = Transform2D 1 0 (vx (position sp)) 0 1 (vy (position sp))"
  by (simp add: t_translate_def t_rotate_def t_scale_def t_mult_def t_identity_def radians_def)

lemma updateFromSprite_circleAt:
  assumes "sprite_scale sp = 1" "sprite_rotation sp = 0"
  shows "updateFromSprite (circleAt off r q) sp = circleAt off r (position sp)"
  using assms sprite_parent[OF assms]
  by (cases off; cases "position sp")
     (simp add: updateFromSprite_def setParentTransform_def circleAt_def onTransformChanged_def
       Let_def computeScaledRadius_def transform_def vsub_def vadd_def mag_Vec_x)

lemma setCollider_circle:
  assumes "sprite_scale sp = 1" "sprite_rotation sp = 0"
  shows "setCollider sp Circle off (Some (r, h)) rot =
     sp\<lparr>collider := Some (circleAt off r (position sp)),
        sweptCollider := Some (newOBBCollider None 0 0 0)\<rparr>"
proof -
  have "(newCircleCollider (Some off) r)\<lparr>getsDimensionsFromSprite := False\<rparr> = circleAt off r (Vec 0 0)"
    by (simp add: newCircleCollider_circleAt) (simp add: circleAt_def)
  then show ?thesis using assms by (simp add: setCollider_def updateFromSprite_circleAt)
qed

lemma runner_eq:
  "runner = (createSprite 0 0 100 100)\<lparr>velocity := Vec 100 0,
       collider := Some (circleAt (Vec 0 0) 1 (Vec 0 0)),
       sweptCollider := Some (newOBBCollider None 0 0 0)\<rparr>"
  by (simp add: runner_def setCollider_circle createSprite_def)

lemma newOBB0:
  "newOBBCollider None 0 0 0 =
     \<lparr>kind = OBBCollider, localTransform = Transform2D 1 0 0 0 1 0,
      parentTransform = Transform2D 1 0 0 0 1 0, center = Vec 0 0,
      offset = Vec 0 0, rotation = 0, scale = Vec 1 1,
      getsDimensionsFromSprite = False, radius = 0, scaledRadius = 0,
      width = 0, height = 0, halfDiagonals = (Vec 0 0, Vec 0 0),
      potentialAxes = [Vec 0 0, Vec 0 0]\<rparr>"
  by (simp add: newOBBCollider_def newCollisionShape_def onTransformChanged_def Let_def
        computeOrientedBox_def t_identity_def t_mult_def transform_def vsub_def vzero_def)


lemma getRadiusOnAxis_circleAt [simp]: "getRadiusOnAxis (circleAt off r p) ax = \<bar>r\<bar>"
  by (simp add: getRadiusOnAxis_def circleAt_def)

lemma getMinRadius_circleAt [simp]: "getMinRadius (circleAt off r p) = \<bar>r\<bar>"
  by (simp add: getMinRadius_def circleAt_def)

lemma circleAt_sel [simp]:
  "kind (circleAt off r p) = CircleCollider"
  "center (circleAt off r p) = vadd off p"
  "scaledRadius (circleAt off r p) = \<bar>r\<bar>"
  by (simp_all add: circleAt_def)

lemma swept_horizontal:
  assumes "velocity sp = Vec v 0" "0 < v"
  shows "updateSweptColliderFromSprite (newOBBCollider None 0 0 0) (circleAt off r q) sp =
     boxAt (v + 2 * \<bar>r\<bar>) (2 * \<bar>r\<bar>) (Vec (vx (newPosition sp) + v / 2) (vy (newPosition sp)))"
  using assms
  by (simp add: updateSweptColliderFromSprite_def newOBB0 Let_def mag_Vec_x
      getDirection_def atan2_def degrees_def radians_def t_translate_def t_rotate_def t_scale_def
      t_mult_def t_identity_def vmult_def onTransformChanged_def computeOrientedBox_def
      transform_def vsub_def boxAt_def)


lemma mag_Vec_y: "mag (Vec 0 y) = \<bar>y\<bar>"
  by (simp add: mag_def magSq_def)

lemma update_runner:
  "update runner = Some movedRunner"
  by (simp add: movedRunner_def runner_eq update_def Let_def swept_horizontal magSq_def createSprite_def
       setRotation_def vadd_def updateFromSprite_circleAt)

lemma resting_eq:
  "resting x r = (createSprite x 0 100 100)\<lparr>collider := Some (circleAt (Vec 0 0) r (Vec x 0)),
       sweptCollider := Some (newOBBCollider None 0 0 0)\<rparr>"
  by (simp add: resting_def setCollider_circle createSprite_def)

lemma update_resting: "update (resting x r) = Some (resting x r)"
  by (simp add: resting_eq update_def Let_def magSq_def createSprite_def
       setRotation_def vadd_def updateFromSprite_circleAt)

lemma collide_circleAt_x:
  "collide (circleAt (Vec 0 0) r1 (Vec x 0)) (circleAt (Vec 0 0) r2 (Vec y 0)) =
     (if \<bar>r1\<bar> + \<bar>r2\<bar> - \<bar>y - x\<bar> \<le> 0 then Some vzero
      else Some (if x = y then Vec (- (\<bar>r1\<bar> + \<bar>r2\<bar>)) 0
                 else Vec ((y - x) * (- (\<bar>r1\<bar> + \<bar>r2\<bar> - \<bar>y - x\<bar>) / \<bar>y - x\<bar>)) 0))"
  using collide_round[of "circleAt (Vec 0 0) r1 (Vec x 0)" "circleAt (Vec 0 0) r2 (Vec y 0)"]
  by (simp add: vadd_def vsub_def mag_Vec_x vmult_def)

lemma swept_axes:
  "getCandidateAxesForShapes (boxAt 102 2 (Vec 50 0)) (circleAt (Vec 0 0) r (Vec 50 0))
     = [Vec 102 0, Vec 0 2, Vec 51 (- 1)]"
  by (simp add: getCandidateAxesForShapes_def getCandidateAxes_def boxAt_def vadd_def vsub_def
        closer_def magSq_def isParallel_def tolerance_def)

lemma box_radius_x: "getRadiusOnAxis (boxAt 102 2 c) (Vec 102 0) = 51"
  by (simp add: getRadiusOnAxis_def boxAt_def project_def vdot_def vmult_def mag_Vec_x)

lemma box_radius_y: "getRadiusOnAxis (boxAt 102 2 c) (Vec 0 2) = 1"
  by (simp add: getRadiusOnAxis_def boxAt_def project_def vdot_def vmult_def mag_Vec_y)

lemma box_radius_diag: "51 \<le> getRadiusOnAxis (boxAt 102 2 c) (Vec 51 (- 1))"
proof -
  have "Vec 51 (- 1) \<noteq> vzero" by (simp add: vzero_def)
  then have "project (Vec 51 (- 1)) (Vec 51 (- 1)) = Vec 51 (- 1)" by (rule project_self)
  moreover have "sqrt (51 * 51) \<le> mag (Vec 51 (- 1))"
    unfolding mag_def magSq_def by (intro real_sqrt_le_mono) simp
  ultimately have "51 \<le> mag (project (Vec 51 (- 1)) (Vec 51 (- 1)))" by simp
  then show ?thesis by (simp add: getRadiusOnAxis_def boxAt_def)
qed

lemma project_zero: "project (Vec 0 0) ax = Vec 0 0"
  by (simp add: project_def vdot_def vmult_def)

lemma setMag_y: "0 < h \<Longrightarrow> setMag (Vec 0 h) n = Vec 0 n"
  by (simp add: setMag_def normalize_def mag_Vec_y vmult_def)

lemma boxAt_sel [simp]:
  "kind (boxAt w h c) = OBBCollider"
  "center (boxAt w h c) = c"
  "halfDiagonals (boxAt w h c) = (Vec (w / 2) (- h / 2), Vec (w / 2) (h / 2))"
  "potentialAxes (boxAt w h c) = [Vec w 0, Vec 0 h]"
  by (simp_all add: boxAt_def)

lemma mag_zero [simp]: "mag (Vec 0 0) = 0"
  by (simp add: mag_def magSq_def)

lemma swept_collide:
  "collide (boxAt 102 2 (Vec 50 0)) (circleAt (Vec 0 0) r (Vec 50 0)) = Some (Vec 0 (- (1 + \<bar>r\<bar>)))"
  using box_radius_diag[of "Vec 50 0"]
  by (simp add: collide_def swept_axes Let_def vsub_def vadd_def project_zero
        box_radius_x box_radius_y setMag_y) linarith

lemma broad: "doSweptCollidersOverlap movedRunner (resting 50 r) = Some True"
  by (simp add: doSweptCollidersOverlap_def getBroadPhaseCollider_def movedRunner_def resting_eq
      createSprite_def magSq_def swept_collide)

lemma ts: "sampleTimestep movedRunner (resting 50 1) (circleAt (Vec 0 0) 1 (Vec 100 0)) (circleAt (Vec 0 0) 1 (Vec 50 0)) = Some (3 / 200)"
  by (simp add: sampleTimestep_def sweepTimestep_def movedRunner_def resting_eq createSprite_def Let_def
       vsub_def mag_Vec_x)

lemma sweepRunner:
  "findDisplacement movedRunner (resting 50 1) =
     Some (Vec (- 3 / 2) 0,
           movedRunner\<lparr>position := Vec (99 / 2) 0,
                         collider := Some (circleAt (Vec 0 0) 1 (Vec (99 / 2) 0))\<rparr>,
           resting 50 1)"
  apply (simp add: findDisplacement_def broad)
  apply (simp add: movedRunner_def resting_eq createSprite_def ts[unfolded movedRunner_def resting_eq createSprite_def, simplified] Let_def vsub_def vmult_def)
  apply (simp add: vadd_def updateFromSprite_circleAt collide_circleAt_x vzero_def)
  done

section \<open>The loop of the resolver\<close>

text \<open>Over an array made for the call with a single sprite, the loop is one call of
  \<open>_collideWithOne\<close>.\<close>

lemma collideWith_loop_end:
  "length (elements os w) \<le> i \<Longrightarrow> collideWith_loop ty this cb os i res w = Some (res, w)"
  by (subst collideWith_loop.simps) simp

lemma collideWith_loop_step:
  "i < length (elements os w) \<Longrightarrow>
   collideWith_loop ty this cb os i res w =
     Option.bind (collideWithOne ty this (elements os w ! i) cb w)
       (\<lambda>(r, w'). collideWith_loop ty this cb os (Suc i) (r \<or> res) w')"
  by (subst collideWith_loop.simps) simp

lemma elements_Fresh [simp]: "elements (Fresh xs) w = xs"
  by (simp add: elements_def)

lemma elements_Alias [simp]: "elements (Alias g) w = groups w g"
  by (simp add: elements_def)

lemma collideWith_loop_one:
  "collideWith_loop ty this cb (Fresh [other]) 0 res w =
     map_option (\<lambda>(r, w'). (r \<or> res, w')) (collideWithOne ty this other cb w)"
proof (cases "collideWithOne ty this other cb w")
  case None
  then show ?thesis by (simp add: collideWith_loop_step)
next
  case (Some p)
  obtain r w1 where p: "p = (r, w1)" by (cases p)
  have "collideWith_loop ty this cb (Fresh [other]) (Suc 0) (r \<or> res) w1 = Some (r \<or> res, w1)"
    by (rule collideWith_loop_end) simp
  then show ?thesis using Some p by (simp add: collideWith_loop_step)
qed

text \<open>C10: for two point colliders the candidate-axis set is empty, the loop of
  \<open>collide\<close> never runs, and \<open>collide\<close> ends in the \<open>TypeError\<close> of dereferencing the
  \<open>null\<close> smallest-overlap axis: it returns no vector.\<close>

theorem point_point_collide_not_total:
  "kind a = PointCollider \<Longrightarrow> kind b = PointCollider \<Longrightarrow>
     getCandidateAxes a b = [] \<and> getCandidateAxes b a = [] \<and>
     getCandidateAxesForShapes a b = [] \<and> collide a b = None"
  by (simp add: collide_def getCandidateAxesForShapes_def getCandidateAxes_def)

theorem point_point_collide_not_total_witness:
  "kind (newPointCollider (Some (Vec 1 2))) = PointCollider \<and>
   kind (newPointCollider None) = PointCollider \<and>
   collide (newPointCollider (Some (Vec 1 2))) (newPointCollider None) = None"
proof -
  have ka: "kind (newPointCollider (Some (Vec 1 2))) = PointCollider"
    by (simp add: newPointCollider_def onTransformChanged_def newCollisionShape_def Let_def)
  have kb: "kind (newPointCollider None) = PointCollider"
    by (simp add: newPointCollider_def onTransformChanged_def newCollisionShape_def Let_def)
  from point_point_collide_not_total [OF ka kb] ka kb show ?thesis by simp
qed

lemma newCircleCollider_fields:
  "kind (newCircleCollider (Some c) r) = CircleCollider"
  "center (newCircleCollider (Some c) r) = c"
  "scaledRadius (newCircleCollider (Some c) r) = \<bar>r\<bar>"
  by (cases c; simp add: newCircleCollider_def onTransformChanged_def newCollisionShape_def Let_def
      computeScaledRadius_def t_translate_def t_mult_def t_identity_def transform_def vsub_def
      vzero_def mag_Vec_x)+


text \<open>C2: for two circle colliders with scaled radii \<open>r1\<close>, \<open>r2\<close> whose centres are
  \<open>d\<close> apart, \<open>overlap\<close> holds exactly when \<open>d < r1 + r2\<close>; when they overlap, \<open>collide\<close>
  returns a vector of magnitude \<open>r1 + r2 - d\<close> on the line through the centres (pointing from
  the second centre towards the first; along the X axis when the centres coincide).\<close>

theorem circle_circle_sat:
  assumes ka: "kind a = CircleCollider" and kb: "kind b = CircleCollider"
  shows "overlap a b = Some (mag (vsub (center b) (center a)) < scaledRadius a + scaledRadius b) \<and>
    (mag (vsub (center b) (center a)) < scaledRadius a + scaledRadius b \<longrightarrow>
      (\<exists>v. collide a b = Some v \<and>
           mag v = scaledRadius a + scaledRadius b - mag (vsub (center b) (center a)) \<and>
           v = (if center a = center b then Vec (- (scaledRadius a + scaledRadius b)) 0
                else vmult (vsub (center b) (center a))
                  (- (scaledRadius a + scaledRadius b - mag (vsub (center b) (center a)))
                     / mag (vsub (center b) (center a))))))"
proof -
  let ?d = "vsub (center b) (center a)"
  let ?ov = "scaledRadius a + scaledRadius b - mag ?d"
  have r: "getRadiusOnAxis a X_AXIS = scaledRadius a" "getRadiusOnAxis b X_AXIS = scaledRadius b"
    using ka kb by (simp_all add: getRadiusOnAxis_def)
  have c: "collide a b =
     (if ?ov \<le> 0 then Some vzero
      else Some (if center a = center b then Vec (- (scaledRadius a + scaledRadius b)) 0
                 else vmult ?d (- ?ov / mag ?d)))"
    using collide_round[of a b] ka kb by (simp add: r)
  show ?thesis
  proof (cases "?ov \<le> 0")
    case True
    then show ?thesis using c by (simp add: overlap_def vzero_def)
  next
    case gt: False
    show ?thesis
    proof (cases "center a = center b")
      case True
      then have "mag ?d = 0" by (simp add: mag_zero_iff vsub_zero_iff)
      then show ?thesis using c gt True by (simp add: overlap_def mag_def magSq_def)
    next
      case False
      then have dnz: "?d \<noteq> vzero" by (auto simp: vsub_zero_iff)
      have e: "vmult ?d (- ?ov / mag ?d) = setMag ?d (- ?ov)" by (rule setMag_eq[OF dnz, symmetric])
      have "vx (setMag ?d (- ?ov)) \<noteq> 0 \<or> vy (setMag ?d (- ?ov)) \<noteq> 0"
        using gt setMag_nonzero[OF dnz, of "- ?ov"] by simp
      moreover have "mag (setMag ?d (- ?ov)) = ?ov" using gt mag_setMag[OF dnz, of "- ?ov"] by simp
      ultimately show ?thesis using c gt False e by (simp add: overlap_def)
    qed
  qed
qed

theorem circle_circle_sat_witness:
  "kind (newCircleCollider (Some (Vec 0 0)) 5) = CircleCollider \<and>
   kind (newCircleCollider (Some (Vec 8 0)) 4) = CircleCollider \<and>
   overlap (newCircleCollider (Some (Vec 0 0)) 5) (newCircleCollider (Some (Vec 8 0)) 4) = Some True \<and>
   collide (newCircleCollider (Some (Vec 0 0)) 5) (newCircleCollider (Some (Vec 8 0)) 4)
     = Some (Vec (- 1) 0)"
  using circle_circle_sat [of "newCircleCollider (Some (Vec 0 0)) 5" "newCircleCollider (Some (Vec 8 0)) 4"]
  by (simp add: newCircleCollider_fields vsub_def mag_Vec_x vmult_def)

section \<open>Quadtree: membership and retrieval\<close>

lemma getAll_set_subnode:
  "hasSubnodes t \<Longrightarrow> set (getAll t') = Set.insert r (set (getAll (subnode t i))) \<Longrightarrow>
   set (getAll (set_subnode t i t')) = Set.insert r (set (getAll t))"
  by (cases t) auto

lemma getAll_set_objects:
  "set (getAll (set_objects t (objects t @ [r]))) = Set.insert r (set (getAll t))"
  by (cases t) auto

lemma hasSubnodes_set [simp]:
  "hasSubnodes (set_subnode t i t') = hasSubnodes t"
  "hasSubnodes (set_objects t os) = hasSubnodes t"
  by (cases t; simp)+

lemma redistribute_getAll:
  assumes "\<And>a xa i. xa \<in> set rs \<Longrightarrow> getIndex w b xa = Some i \<Longrightarrow>
      set (getAll (ins xa (subnode a i))) = Set.insert xa (set (getAll (subnode a i)))"
  shows "hasSubnodes tr \<Longrightarrow>
    hasSubnodes (foldl (\<lambda>t r. case getIndex w b r of
                              None \<Rightarrow> set_objects t (objects t @ [r])
                            | Some i \<Rightarrow> set_subnode t i (ins r (subnode t i))) tr rs) \<and>
    set (getAll (foldl (\<lambda>t r. case getIndex w b r of
                              None \<Rightarrow> set_objects t (objects t @ [r])
                            | Some i \<Rightarrow> set_subnode t i (ins r (subnode t i))) tr rs))
      = set rs \<union> set (getAll tr)"
  using assms
proof (induction rs arbitrary: tr)
  case Nil
  then show ?case by simp
next
  case (Cons r rs)
  let ?step = "\<lambda>t r. case getIndex w b r of
                              None \<Rightarrow> set_objects t (objects t @ [r])
                            | Some i \<Rightarrow> set_subnode t i (ins r (subnode t i))"
  have s1: "hasSubnodes (?step tr r)" using Cons.prems(1) by (simp split: option.split)
  have g1: "set (getAll (?step tr r)) = Set.insert r (set (getAll tr))"
  proof (cases "getIndex w b r")
    case None
    then show ?thesis by (simp add: getAll_set_objects)
  next
    case (Some i)
    have "set (getAll (ins r (subnode tr i))) = Set.insert r (set (getAll (subnode tr i)))"
      using Cons.prems(2)[of r i tr] Some by simp
    then show ?thesis using Some Cons.prems(1) by (simp add: getAll_set_subnode)
  qed
  have "hasSubnodes (foldl ?step (?step tr r) rs) \<and>
        set (getAll (foldl ?step (?step tr r) rs)) = set rs \<union> set (getAll (?step tr r))"
    by (rule Cons.IH[OF s1]) (use Cons.prems(2) in auto)
  then show ?case using g1 by auto
qed

lemma insert_getAll:
  "set (getAll (insert w mo ml lvl obj t)) = Set.insert obj (set (getAll t))"
proof (induction w mo ml lvl obj t rule: insert.induct)
  case (1 w mo ml lvl obj b os)
  show ?case
  proof (cases "obj \<notin> set os \<and> mo < length (os @ [obj]) \<and> lvl < ml")
    case True
    have "set (getAll (foldl (\<lambda>t r. case getIndex w b r of
                              None \<Rightarrow> set_objects t (objects t @ [r])
                            | Some i \<Rightarrow> set_subnode t i (insert w mo ml (lvl + 1) r (subnode t i)))
                    (split b []) (os @ [obj])))
          = set (os @ [obj]) \<union> set (getAll (split b []))"
      by (rule redistribute_getAll[THEN conjunct2])
         (use 1 True in \<open>auto simp: split_def Let_def\<close>)
    then show ?thesis using True by (simp add: Let_def split_def newQuadtree_def)
  next
    case False
    then show ?thesis by (auto simp: Let_def)
  qed
next
  case (2 w mo ml lvl obj b os n0 n1 n2 n3)
  show ?case
  proof (cases "obj \<in> set os")
    case True
    then show ?thesis by auto
  next
    case nin: False
    show ?thesis
    proof (cases "getIndex w b obj")
      case (Some i)
      have "set (getAll (insert w mo ml (lvl + 1) obj (subnode (Split b os n0 n1 n2 n3) i)))
            = Set.insert obj (set (getAll (subnode (Split b os n0 n1 n2 n3) i)))"
        using 2(2)[OF nin Some] .
      then have "set (getAll (set_subnode (Split b os n0 n1 n2 n3) i
              (insert w mo ml (lvl + 1) obj (subnode (Split b os n0 n1 n2 n3) i))))
            = Set.insert obj (set (getAll (Split b os n0 n1 n2 n3)))"
        by (intro getAll_set_subnode) simp_all
      then show ?thesis using nin Some by simp
    next
      case None
      show ?thesis
      proof (cases "mo < length (os @ [obj]) \<and> lvl < ml")
        case True
        have "set (getAll (foldl (\<lambda>t r. case getIndex w b r of
                              None \<Rightarrow> set_objects t (objects t @ [r])
                            | Some i \<Rightarrow> set_subnode t i (insert w mo ml (lvl + 1) r (subnode t i)))
                    (Split b [] n0 n1 n2 n3) (os @ [obj])))
          = set (os @ [obj]) \<union> set (getAll (Split b [] n0 n1 n2 n3))"
          by (rule redistribute_getAll[THEN conjunct2])
             (use 2(1) nin None True in auto)
        then show ?thesis using True nin None by (auto simp: Let_def)
      next
        case False
        then show ?thesis using nin None by (auto simp: Let_def)
      qed
    qed
  qed
qed

lemma inserts_getAll:
  "set (getAll (foldl (\<lambda>t r. insert w mo ml lvl r t) t rs)) = set rs \<union> set (getAll t)"
  by (induction rs arbitrary: t) (auto simp: insert_getAll)

text \<open>C9: \<open>cleanup()\<close> preserves membership: the set of references that \<open>getAll()\<close>
  returns after \<open>cleanup()\<close> is the set it returned before, for every quadtree, store,
  capacity, depth limit and level.\<close>

theorem cleanup_preserves_membership:
  "set (getAll (cleanup w mo ml lvl t)) = set (getAll t)"
  by (simp add: cleanup_def inserts_getAll clear_def)

lemma getIndex_range: "getIndex w b r = Some i \<Longrightarrow> i = 0 \<or> i = 1 \<or> i = 2 \<or> i = 3"
  by (auto simp: getIndex_def Let_def split: option.splits if_splits)

lemma getIndex_disjoint:
  assumes "getIndex w b r = Some i" "getIndex w b q = Some j" "i \<noteq> j"
    "collider (w r) = Some cr" "collider (w q) = Some cq"
  shows "\<not> boxes_intersect (getBoundingBox cr) (getBoundingBox cq)"
  using assms
  by (auto simp: getIndex_def Let_def boxes_intersect_def split: if_splits)

lemma routed_set_objects [simp]: "routed w (set_objects t os) = routed w t"
  by (cases t) auto

lemma routed_set_subnode:
  assumes "routed w t" "hasSubnodes t" "routed w t'" "getIndex w (qbounds t) r = Some i"
    "set (getAll t') = Set.insert r (set (getAll (subnode t i)))"
  shows "routed w (set_subnode t i t')"
proof -
  from assms(2) obtain b os n0 n1 n2 n3 where t: "t = Split b os n0 n1 n2 n3" by (cases t) auto
  from assms(4) t have "i = 0 \<or> i = 1 \<or> i = 2 \<or> i = 3" using getIndex_range by auto
  then show ?thesis using assms t by (auto simp: list_all_iff)
qed

lemma qbounds_set [simp]:
  "qbounds (set_subnode t i t') = qbounds t" "qbounds (set_objects t os) = qbounds t"
  by (cases t; simp)+

lemma redistribute_routed:
  assumes "\<And>a xa i. xa \<in> set rs \<Longrightarrow> getIndex w b xa = Some i \<Longrightarrow> routed w (subnode a i) \<Longrightarrow>
      routed w (ins xa (subnode a i))"
    and "\<And>a xa i. set (getAll (ins xa (subnode a i))) = Set.insert xa (set (getAll (subnode a i)))"
  shows "hasSubnodes tr \<Longrightarrow> routed w tr \<Longrightarrow> qbounds tr = b \<Longrightarrow>
    routed w (foldl (\<lambda>t r. case getIndex w b r of
                              None \<Rightarrow> set_objects t (objects t @ [r])
                            | Some i \<Rightarrow> set_subnode t i (ins r (subnode t i))) tr rs)"
  using assms(1)
proof (induction rs arbitrary: tr)
  case Nil
  then show ?case by simp
next
  case (Cons r rs)
  let ?step = "\<lambda>t r. case getIndex w b r of
                              None \<Rightarrow> set_objects t (objects t @ [r])
                            | Some i \<Rightarrow> set_subnode t i (ins r (subnode t i))"
  have s1: "hasSubnodes (?step tr r)" using Cons.prems(1) by (simp split: option.split)
  have b1: "qbounds (?step tr r) = b" using Cons.prems(3) by (simp split: option.split)
  have r1: "routed w (?step tr r)"
  proof (cases "getIndex w b r")
    case None
    then show ?thesis using Cons.prems(2) by simp
  next
    case (Some i)
    have sub: "routed w (subnode tr i)"
      using Cons.prems(1,2) by (cases tr) auto
    have "routed w (ins r (subnode tr i))"
      using Cons.prems(4)[of r i tr] Some sub by simp
    then have "routed w (set_subnode tr i (ins r (subnode tr i)))"
      using Cons.prems(1,2,3) Some assms(2) by (intro routed_set_subnode[where r=r]) auto
    then show ?thesis using Some by simp
  qed
  have "routed w (foldl ?step (?step tr r) rs)"
    by (rule Cons.IH[OF s1 r1 b1]) (use Cons.prems(4) in auto)
  then show ?case by simp
qed

lemma routed_subnode: "routed w t \<Longrightarrow> routed w (subnode t i)"
  by (cases t) auto

lemma insert_routed:
  "routed w t \<Longrightarrow> routed w (insert w mo ml lvl obj t)"
proof (induction w mo ml lvl obj t rule: insert.induct)
  case (1 w mo ml lvl obj b os)
  show ?case
  proof (cases "obj \<notin> set os \<and> mo < length (os @ [obj]) \<and> lvl < ml")
    case True
    have "routed w (foldl (\<lambda>t r. case getIndex w b r of
                              None \<Rightarrow> set_objects t (objects t @ [r])
                            | Some i \<Rightarrow> set_subnode t i (insert w mo ml (lvl + 1) r (subnode t i)))
                    (split b []) (os @ [obj]))"
      by (rule redistribute_routed)
         (use 1 True in \<open>auto simp: split_def Let_def newQuadtree_def insert_getAll\<close>)
    then show ?thesis using True by (simp add: Let_def)
  next
    case False
    then show ?thesis by (auto simp: Let_def)
  qed
next
  case (2 w mo ml lvl obj b os n0 n1 n2 n3)
  let ?t = "Split b os n0 n1 n2 n3"
  show ?case
  proof (cases "obj \<in> set os")
    case True
    then show ?thesis using 2(3) by simp
  next
    case nin: False
    show ?thesis
    proof (cases "getIndex w b obj")
      case (Some i)
      have "routed w (insert w mo ml (lvl + 1) obj (subnode ?t i))"
        using 2(2)[OF nin Some] routed_subnode[OF 2(3)] by simp
      then have "routed w (set_subnode ?t i (insert w mo ml (lvl + 1) obj (subnode ?t i)))"
        using 2(3) Some by (intro routed_set_subnode[where r=obj]) (simp_all add: insert_getAll)
      then show ?thesis using nin Some by simp
    next
      case None
      show ?thesis
      proof (cases "mo < length (os @ [obj]) \<and> lvl < ml")
        case True
        have "routed w (foldl (\<lambda>t r. case getIndex w b r of
                              None \<Rightarrow> set_objects t (objects t @ [r])
                            | Some i \<Rightarrow> set_subnode t i (insert w mo ml (lvl + 1) r (subnode t i)))
                    (Split b [] n0 n1 n2 n3) (os @ [obj]))"
          by (rule redistribute_routed)
             (use 2(1,3) nin None True in \<open>auto simp: insert_getAll\<close>)
        then show ?thesis using True nin None by (simp add: Let_def)
      next
        case False
        then show ?thesis using nin None 2(3) by (auto simp: Let_def)
      qed
    qed
  qed
qed

lemma inserts_routed:
  "routed w t \<Longrightarrow> routed w (foldl (\<lambda>t r. insert w mo ml lvl r t) t rs)"
  by (induction rs arbitrary: t) (auto simp: insert_routed)

lemma retrieve_routed:
  assumes "collider (w q) = Some cq" "collider (w r) = Some cr"
    "boxes_intersect (getBoundingBox cr) (getBoundingBox cq)"
  shows "routed w t \<Longrightarrow> r \<in> set (getAll t) \<Longrightarrow> r \<in> set (retrieve w t q)"
proof (induction t)
  case (Leaf b os)
  then show ?case by simp
next
  case (Split b os n0 n1 n2 n3)
  show ?case
  proof (cases "getIndex w b q")
    case None
    then show ?thesis using Split by auto
  next
    case (Some j)
    have d: "getIndex w b r = Some i \<Longrightarrow> i = j" for i
      using getIndex_disjoint[of w b r i q j cr cq] Some assms by blast
    from Some have "j = 0 \<or> j = 1 \<or> j = 2 \<or> j = 3" by (rule getIndex_range)
    then show ?thesis using Split Some d by (auto simp: list_all_iff)
  qed
qed

text \<open>C8: for every quadtree built from an empty root by a sequence of insertions and every
  query sprite \<open>q\<close> with a collider, \<open>retrieve(q)\<close> contains every stored sprite whose
  collider's bounding box intersects the bounding box of \<open>q\<close> (the sprites of the store do
  not change between the insertions and the query).\<close>

theorem retrieve_complete:
  assumes "collider (w q) = Some cq" and "collider (w r) = Some cr"
    and "boxes_intersect (getBoundingBox cr) (getBoundingBox cq)"
    and "r \<in> set (getAll (foldl (\<lambda>t x. insert w mo ml 0 x t) (newQuadtree b) rs))"
  shows "r \<in> set (retrieve w (foldl (\<lambda>t x. insert w mo ml 0 x t) (newQuadtree b) rs) q)"
  using assms(4)
  by (intro retrieve_routed[OF assms(1,2,3)] inserts_routed) (simp_all add: newQuadtree_def)

theorem retrieve_complete_witness:
  "collider (unit_circles 0) = Some (newCircleCollider (Some (Vec 0 0)) 1) \<and>
   collider (unit_circles 1) = Some (newCircleCollider (Some (Vec 1 0)) 1) \<and>
   boxes_intersect (getBoundingBox (newCircleCollider (Some (Vec 1 0)) 1))
                   (getBoundingBox (newCircleCollider (Some (Vec 0 0)) 1)) \<and>
   1 \<in> set (getAll (foldl (\<lambda>t x. insert unit_circles 1 4 0 x t) (newQuadtree (Bounds 0 0 100 100)) [0, 1])) \<and>
   1 \<in> set (retrieve unit_circles
              (foldl (\<lambda>t x. insert unit_circles 1 4 0 x t) (newQuadtree (Bounds 0 0 100 100)) [0, 1]) 0)"
proof -
  have c0: "collider (unit_circles 0) = Some (newCircleCollider (Some (Vec 0 0)) 1)"
    by (simp add: unit_circles_def)
  have c1: "collider (unit_circles 1) = Some (newCircleCollider (Some (Vec 1 0)) 1)"
    by (simp add: unit_circles_def)
  have bi: "boxes_intersect (getBoundingBox (newCircleCollider (Some (Vec 1 0)) 1))
                   (getBoundingBox (newCircleCollider (Some (Vec 0 0)) 1))"
    by (simp add: boxes_intersect_def getBoundingBox_def getRadiusOnAxis_def newCircleCollider_fields)
  have m: "1 \<in> set (getAll (foldl (\<lambda>t x. insert unit_circles 1 4 0 x t) (newQuadtree (Bounds 0 0 100 100)) [0, 1]))"
    by (simp only: inserts_getAll) simp
  from retrieve_complete [OF c0 c1 bi m] c0 c1 bi m show ?thesis by blast
qed

section \<open>Swept collision: the tunnelling example and the sampling step\<close>

text \<open>C4: the tunnelling example. A circle of radius 1 at (0, 0) moves by (100, 0) in one
  step; a circle of radius 1 rests at (50, 0). The colliders do not overlap at the start of
  the step nor at its end, and \<open>_findDisplacement\<close> reports a displacement that is not zero
  (found at the 33rd sample, with the moving sprite at (49.5, 0)).\<close>

theorem tunnelling_detected:
  "update runner = Some movedRunner \<and> update (resting 50 1) = Some (resting 50 1) \<and>
   position runner = Vec 0 0 \<and> position movedRunner = Vec 100 0 \<and>
   (\<exists>c d. collider runner = Some c \<and> collider (resting 50 1) = Some d \<and> collide c d = Some vzero) \<and>
   (\<exists>c d. collider movedRunner = Some c \<and> collider (resting 50 1) = Some d \<and>
          collide c d = Some vzero) \<and>
   (\<exists>a b. findDisplacement movedRunner (resting 50 1) = Some (Vec (- 3 / 2) 0, a, b))"
  by (simp add: update_runner update_resting sweepRunner)
     (simp add: runner_eq movedRunner_def resting_eq createSprite_def collide_circleAt_x)

lemma tunnelWorld_sel:
  "sprites tunnelWorld 0 = movedRunner" "sprites tunnelWorld (Suc 0) = resting 50 1"
  "calls tunnelWorld = []" "groups tunnelWorld g = []"
  by (simp_all add: tunnelWorld_def)

text \<open>C6, at the failing input: \<open>overlap\<close> between the moving sprite of the tunnelling
  example and the resting circle returns true and leaves the moving sprite at the sampled
  position (49.5, 0) instead of its position (100, 0).\<close>

theorem overlap_moves_sprite:
  "position (sprites tunnelWorld 0) = Vec 100 0 \<and>
   map_option fst (sprite_overlap noQuadtree 0 (TargetSprite 1) None tunnelWorld) = Some True \<and>
   map_option (positionOf 0) (sprite_overlap noQuadtree 0 (TargetSprite 1) None tunnelWorld)
     = Some (Vec (99 / 2) 0)"
  apply (simp add: sprite_overlap_def collideWith_def getOthers_def resetTouching_def
      collideWith_loop_one collideWithOne_def tunnelWorld_sel Let_def positionOf_def)
  apply (simp add: movedRunner_def createSprite_def resting_eq)
  apply (simp add: sweepRunner[unfolded movedRunner_def resting_eq createSprite_def, simplified]
       setTouching_def applyDisplacement_def respond_def)
  apply blast
  done

lemma sampleCount_bound: "0 < ts \<Longrightarrow> sampleCount ts i \<le> nat \<lceil>(1 - i) / ts\<rceil>"
proof (induction ts i rule: sampleCount.induct)
  case (1 ts i)
  show ?case
  proof (cases "i < 1")
    case True
    have e: "(1 - (i + ts)) / ts = (1 - i) / ts - 1" using 1(2) by (simp add: field_simps)
    have "0 < (1 - i) / ts" using 1(2) True by simp
    then have p: "0 < \<lceil>(1 - i) / ts\<rceil>" by simp
    have "sampleCount ts (i + ts) \<le> nat \<lceil>(1 - (i + ts)) / ts\<rceil>" using 1 True by simp
    also have "\<dots> = nat (\<lceil>(1 - i) / ts\<rceil> - 1)" by (simp add: e)
    finally have "Suc (sampleCount ts (i + ts)) \<le> nat \<lceil>(1 - i) / ts\<rceil>" using p by linarith
    then show ?thesis using True 1(2) by (subst sampleCount.simps) simp
  next
    case False
    then show ?thesis by (subst sampleCount.simps) simp
  qed
qed

lemma sampleCount_floor:
  assumes "15 / 1000 \<le> ts"
  shows "sampleCount ts ts \<le> 66"
proof -
  have pos: "0 < ts" using assms by simp
  have "1 / ts \<le> 1 / (15 / 1000)" using assms by (intro divide_left_mono) simp_all
  then have "(1 - ts) / ts \<le> 66" using pos by (simp add: field_simps)
  then have "\<lceil>(1 - ts) / ts\<rceil> \<le> 66" by (simp add: ceiling_le_iff)
  then have "nat \<lceil>(1 - ts) / ts\<rceil> \<le> 66" by simp
  then show ?thesis using sampleCount_bound[OF pos, of ts] by linarith
qed

lemma sweepTimestep_floor: "sweepTimestep r v = Some ts \<Longrightarrow> 15 / 1000 \<le> ts"
  by (auto simp: sweepTimestep_def split: if_splits)

text \<open>C3, as the code has it: when the velocities of the two sprites differ, the sampling
  step is the larger of 0.015 and the quotient of the larger of the two minimum radii by the
  relative speed. Whenever there is a step it is at least 0.015, so the sampling loop runs
  at most 66 times.\<close>

theorem sample_timestep:
  "(velocity this \<noteq> velocity target \<longrightarrow>
      sampleTimestep this target c d =
        Some (max (15 / 1000)
                  (max (getMinRadius c) (getMinRadius d)
                     / mag (vsub (velocity this) (velocity target))))) \<and>
   (\<forall>ts. sampleTimestep this target c d = Some ts \<longrightarrow> 15 / 1000 \<le> ts \<and> sampleCount ts ts \<le> 66)"
proof (intro conjI impI allI)
  assume "velocity this \<noteq> velocity target"
  then have "mag (vsub (velocity this) (velocity target)) \<noteq> 0"
    by (simp add: mag_zero_iff vsub_zero_iff)
  then show "sampleTimestep this target c d =
        Some (max (15 / 1000)
                  (max (getMinRadius c) (getMinRadius d)
                     / mag (vsub (velocity this) (velocity target))))"
    by (simp add: sampleTimestep_def sweepTimestep_def Let_def)
next
  fix ts assume "sampleTimestep this target c d = Some ts"
  then show "15 / 1000 \<le> ts"
    by (auto simp: sampleTimestep_def Let_def dest: sweepTimestep_floor)
  then show "sampleCount ts ts \<le> 66" by (rule sampleCount_floor)
qed

theorem sample_timestep_witness:
  "velocity movedRunner \<noteq> velocity (resting 50 2) \<and>
   sampleTimestep movedRunner (resting 50 2)
      (circleAt (Vec 0 0) 1 (Vec 100 0)) (circleAt (Vec 0 0) 2 (Vec 50 0)) = Some (1 / 50) \<and>
   sampleCount (1 / 50) (1 / 50) \<le> 66"
proof -
  have v: "velocity movedRunner \<noteq> velocity (resting 50 2)"
    by (simp add: movedRunner_def resting_eq createSprite_def)
  have t: "sampleTimestep movedRunner (resting 50 2)
      (circleAt (Vec 0 0) 1 (Vec 100 0)) (circleAt (Vec 0 0) 2 (Vec 50 0)) = Some (1 / 50)"
    using sample_timestep[of movedRunner "resting 50 2" "circleAt (Vec 0 0) 1 (Vec 100 0)"
        "circleAt (Vec 0 0) 2 (Vec 50 0)"] v
    by (simp add: movedRunner_def resting_eq createSprite_def vsub_def mag_Vec_x)
  with sample_timestep[of movedRunner "resting 50 2" "circleAt (Vec 0 0) 1 (Vec 100 0)"
        "circleAt (Vec 0 0) 2 (Vec 50 0)"] v
  show ?thesis by blast
qed

text \<open>C3 as stated fails where the two minimum radii differ: for the moving circle of
  radius 1 and a resting circle of radius 2 the broad phase overlaps and the step is
  2 / 100, not \<open>max 0.015 (min 1 2 / 100)\<close> = 0.015.\<close>

theorem sample_timestep_counterexample:
  "doSweptCollidersOverlap movedRunner (resting 50 2) = Some True \<and>
   collider movedRunner = Some (circleAt (Vec 0 0) 1 (Vec 100 0)) \<and>
   collider (resting 50 2) = Some (circleAt (Vec 0 0) 2 (Vec 50 0)) \<and>
   sampleTimestep movedRunner (resting 50 2)
      (circleAt (Vec 0 0) 1 (Vec 100 0)) (circleAt (Vec 0 0) 2 (Vec 50 0)) = Some (1 / 50) \<and>
   max (15 / 1000)
       (min (getMinRadius (circleAt (Vec 0 0) 1 (Vec 100 0)))
            (getMinRadius (circleAt (Vec 0 0) 2 (Vec 50 0)))
          / mag (vsub (velocity movedRunner) (velocity (resting 50 2)))) = 3 / 200"
  by (simp add: broad)
     (simp add: sampleTimestep_def sweepTimestep_def movedRunner_def resting_eq createSprite_def
        Let_def vsub_def mag_Vec_x)

section \<open>The resolver: callbacks and the velocity response\<close>



lemma collideWithOne_elements:
  assumes "keepsOthers cb os" and "collideWithOne ty this other cb w = Some (r, w')"
  shows "elements os w' = elements os w"
proof (cases os)
  case (Fresh xs)
  then show ?thesis by simp
next
  case (Alias g)
  have "groups w' g = groups w g"
  proof (cases cb)
    case None
    then show ?thesis using assms(2)
      by (auto simp: collideWithOne_def Let_def split: if_splits option.splits prod.splits)
  next
    case (Some f)
    then have "\<forall>a b h. snd (f a b h) g = snd h g"
      using assms(1) Alias unfolding keepsOthers_def by simp
    then have k: "snd (f a b h) g = snd h g" for a b h by blast
    have "snd p = snd (f a b h) \<Longrightarrow> snd p g = snd h g" for p a b h using k by simp
    then show ?thesis using assms(2) Some
      by (auto simp: collideWithOne_def Let_def split: if_splits option.splits prod.splits)
         (metis snd_conv)+
  qed
  then show ?thesis using Alias by simp
qed




text \<open>When the callback keeps the array, the loop ends: it returns unless a round ends in a
  \<open>TypeError\<close>.\<close>

lemma collideWith_loop_ends:
  assumes keep: "keepsOthers cb os"
  shows "collideWith_loop ty this cb os i res w = None \<Longrightarrow>
           \<exists>other w1. collideWithOne ty this other cb w1 = None"
proof (induction "length (elements os w) - i" arbitrary: i res w)
  case 0
  then have "length (elements os w) \<le> i" by simp
  then have "collideWith_loop ty this cb os i res w = Some (res, w)" by (rule collideWith_loop_end)
  then show ?case using 0(2) by simp
next
  case (Suc n)
  then have lt: "i < length (elements os w)" by simp
  show ?case
  proof (cases "collideWithOne ty this (elements os w ! i) cb w")
    case None
    then show ?thesis by blast
  next
    case (Some p)
    obtain r1 w1 where p: "p = (r1, w1)" by (cases p)
    have one: "collideWithOne ty this (elements os w ! i) cb w = Some (r1, w1)" using Some p by simp
    have el: "elements os w1 = elements os w" using keep one by (rule collideWithOne_elements)
    have n: "n = length (elements os w1) - Suc i" using Suc(2) el by simp
    have "collideWith_loop ty this cb os (Suc i) (r1 \<or> res) w1 = None"
      using Suc(3) lt one by (simp add: collideWith_loop_step)
    from Suc(1)[OF n this] show ?thesis .
  qed
qed

lemma restingWorld_sel:
  "sprites restingWorld 0 = resting 0 5" "n \<noteq> 0 \<Longrightarrow> sprites restingWorld n = resting 8 4"
  "calls restingWorld = []" "groups restingWorld g = [1, 2]"
  by (simp_all add: restingWorld_def)

lemma find_resting:
  "findDisplacement ((resting 0 5)\<lparr>touching := t\<rparr>) (resting 8 4)
     = Some (Vec (- 1) 0, (resting 0 5)\<lparr>touching := t\<rparr>, resting 8 4)"
  by (simp add: findDisplacement_def doSweptCollidersOverlap_def getBroadPhaseCollider_def
        resting_eq createSprite_def magSq_def collide_circleAt_x sampleTimestep_def
        sweepTimestep_def Let_def vsub_def finalCheck_def updateFromSprite_circleAt)

text \<open>One round of the loop between the resting circles, for \<open>overlap\<close> with a callback.\<close>

lemma round_resting:
  assumes "sprites w 0 = (resting 0 5)\<lparr>touching := t\<rparr>" and "sprites w other = resting 8 4"
    and "other \<noteq> 0"
  shows "collideWithOne Overlap 0 other (Some f) w =
     Some (True,
       w\<lparr>sprites := fst (f 0 other ((sprites w)(0 := (resting 0 5)\<lparr>touching := t\<lparr>t_right := True\<rparr>\<rparr>,
                                                    other := resting 8 4), groups w)),
         groups := snd (f 0 other ((sprites w)(0 := (resting 0 5)\<lparr>touching := t\<lparr>t_right := True\<rparr>\<rparr>,
                                                   other := resting 8 4), groups w)),
         calls := calls w @ [(0, other)]\<rparr>)"
proof -
  have c: "collider ((resting 0 5)\<lparr>touching := t\<rparr>) = Some (circleAt (Vec 0 0) 5 (Vec 0 0))"
       "collider (resting 8 4) = Some (circleAt (Vec 0 0) 4 (Vec 8 0))"
       "removed (resting 8 4) = False"
    by (simp_all add: resting_eq createSprite_def)
  have s: "setTouching ((resting 0 5)\<lparr>touching := t\<rparr>) (Vec (- 1) 0)
             = (resting 0 5)\<lparr>touching := t\<lparr>t_right := True\<rparr>\<rparr>"
    by (simp add: setTouching_def resting_eq createSprite_def)
  show ?thesis
    using assms(3)
    by (simp add: collideWithOne_def Let_def assms(1,2) c find_resting s applyDisplacement_def
          respond_def case_prod_beta)
qed

lemma reset_resting:
  "sprites (resetTouching 0 restingWorld) 0
     = (resting 0 5)\<lparr>touching := \<lparr>t_left = False, t_right = False, t_top = False, t_bottom = False\<rparr>\<rparr>"
  "n \<noteq> 0 \<Longrightarrow> sprites (resetTouching 0 restingWorld) n = resting 8 4"
  "groups (resetTouching 0 restingWorld) g = [1, 2]"
  "calls (resetTouching 0 restingWorld) = []"
  "removed (sprites (resetTouching 0 restingWorld) 0) = False"
  by (simp_all add: resetTouching_def restingWorld_sel resting_eq createSprite_def)


lemma overlap_group_drop:
  "map_option callsOf (sprite_overlap noQuadtree 0 (TargetGroup 0) (Some dropOther) restingWorld)
     = Some (True, [(0, 1)])"
proof -
  define w0 where "w0 = resetTouching 0 restingWorld"
  note r0 = reset_resting[folded w0_def]
  have one: "\<exists>w1. collideWithOne Overlap 0 1 (Some dropOther) w0 = Some (True, w1) \<and>
               groups w1 0 = [2] \<and> calls w1 = [(0, 1)]"
    using round_resting[OF r0(1) r0(2)[of 1], of dropOther] r0
    by (simp add: dropOther_def groupRemove_def)
  then obtain w1 where w1: "collideWithOne Overlap 0 1 (Some dropOther) w0 = Some (True, w1)"
    "groups w1 0 = [2]" "calls w1 = [(0, 1)]"
    by blast
  have "collideWith_loop Overlap 0 (Some dropOther) (Alias 0) (Suc 0) True w1 = Some (True, w1)"
    by (rule collideWith_loop_end) (simp add: w1)
  then have "collideWith_loop Overlap 0 (Some dropOther) (Alias 0) 0 False w0 = Some (True, w1)"
    using r0(3) w1(1) by (simp add: collideWith_loop_step)
  then show ?thesis
    using r0(5) w1(3)
    by (simp add: sprite_overlap_def collideWith_def Let_def getOthers_def noQuadtree_def
          callsOf_def flip: w0_def)
qed




text \<open>C5, for masses that are not zero: in a bounce between two movable sprites of equal
  mass with restitution product 1, where the other sprite is at rest, the component of the
  velocity of the first sprite along the displacement becomes zero and that of the other
  sprite becomes the component the first sprite had; the components across the displacement
  do not change.\<close>

theorem bounce_equal_mass:
  assumes "\<not> immovable a" and "\<not> immovable b" and "mass a = mass b" and "mass a \<noteq> 0"
    and "restitution a * restitution b = 1" and "velocity b = vzero" and "d \<noteq> vzero"
  shows "project (velocity (fst (respond Bounce d a b))) d = vzero \<and>
         project (velocity (snd (respond Bounce d a b))) d = project (velocity a) d \<and>
         vsub (velocity (fst (respond Bounce d a b))) (project (velocity (fst (respond Bounce d a b))) d)
           = vsub (velocity a) (project (velocity a) d) \<and>
         vsub (velocity (snd (respond Bounce d a b))) (project (velocity (snd (respond Bounce d a b))) d)
           = vsub (velocity b) (project (velocity b) d)"
proof -
  let ?u = "project (velocity a) d"
  have m2: "mass a + mass a \<noteq> 0" using assms(4) by simp
  have fin_a: "vdiv (vadd (vmult (vsub vzero ?u) (mass a * 1)) (vadd (vmult ?u (mass a)) (vmult vzero (mass a))))
                 (mass a + mass a) = vzero"
    using m2 by (cases ?u) (simp add: vdiv_def vsub_def vadd_def vmult_def vzero_def)
  have fin_b: "vdiv (vadd (vmult (vsub ?u vzero) (mass a * 1)) (vadd (vmult ?u (mass a)) (vmult vzero (mass a))))
                 (mass a + mass a) = ?u"
    using m2 by (cases ?u) (simp add: vdiv_def vsub_def vadd_def vmult_def vzero_def field_simps)
  have r: "respond Bounce d a b = (a\<lparr>velocity := vsub (velocity a) ?u\<rparr>, b\<lparr>velocity := ?u\<rparr>)"
    using assms(1-6) m2 fin_a fin_b
    by (simp add: respond_def bounceVelocities_def Let_def project_vzero vec_algebra
          flip: assms(3))
  have pa: "project (vsub (velocity a) ?u) d = vzero"
    by (simp add: project_vsub project_project[OF assms(7)] vec_algebra)
  have pb: "project ?u d = ?u" by (rule project_project[OF assms(7)])
  show ?thesis
    using pa pb by (simp add: r assms(6) vec_algebra project_vzero)
qed

theorem bounce_equal_mass_witness:
  "project (velocity (fst (respond Bounce (Vec (- 1) 0)
              ((resting 0 5)\<lparr>velocity := Vec 3 4\<rparr>) (resting 8 4)))) (Vec (- 1) 0) = vzero \<and>
   project (velocity (snd (respond Bounce (Vec (- 1) 0)
              ((resting 0 5)\<lparr>velocity := Vec 3 4\<rparr>) (resting 8 4)))) (Vec (- 1) 0) = Vec 3 0 \<and>
   vsub (velocity (fst (respond Bounce (Vec (- 1) 0)
              ((resting 0 5)\<lparr>velocity := Vec 3 4\<rparr>) (resting 8 4))))
        (project (velocity (fst (respond Bounce (Vec (- 1) 0)
              ((resting 0 5)\<lparr>velocity := Vec 3 4\<rparr>) (resting 8 4)))) (Vec (- 1) 0)) = Vec 0 4"
  using bounce_equal_mass[of "(resting 0 5)\<lparr>velocity := Vec 3 4\<rparr>" "resting 8 4" "Vec (- 1) 0"]
  by (simp add: resting_eq createSprite_def vzero_def project_def vdot_def vmult_def vsub_def)

text \<open>C5 as stated fails for two sprites of mass 0: the velocity of the first sprite along
  the displacement, (3, 0), is taken from it, and the other sprite stays at rest.\<close>

theorem bounce_zero_mass_counterexample:
  "mass ((resting 0 5)\<lparr>velocity := Vec 3 4, mass := 0\<rparr>) = mass ((resting 8 4)\<lparr>mass := 0\<rparr>) \<and>
   restitution ((resting 0 5)\<lparr>velocity := Vec 3 4, mass := 0\<rparr>)
     * restitution ((resting 8 4)\<lparr>mass := 0\<rparr>) = 1 \<and>
   \<not> immovable ((resting 0 5)\<lparr>velocity := Vec 3 4, mass := 0\<rparr>) \<and>
   \<not> immovable ((resting 8 4)\<lparr>mass := 0\<rparr>) \<and>
   velocity ((resting 8 4)\<lparr>mass := 0\<rparr>) = vzero \<and>
   project (velocity ((resting 0 5)\<lparr>velocity := Vec 3 4, mass := 0\<rparr>)) (Vec (- 1) 0) = Vec 3 0 \<and>
   velocity (fst (respond Bounce (Vec (- 1) 0) ((resting 0 5)\<lparr>velocity := Vec 3 4, mass := 0\<rparr>)
      ((resting 8 4)\<lparr>mass := 0\<rparr>))) = Vec 0 4 \<and>
   velocity (snd (respond Bounce (Vec (- 1) 0) ((resting 0 5)\<lparr>velocity := Vec 3 4, mass := 0\<rparr>)
      ((resting 8 4)\<lparr>mass := 0\<rparr>))) = Vec 0 0"
  by (simp add: resting_eq createSprite_def respond_def bounceVelocities_def Let_def vzero_def
        project_def vdot_def vmult_def vsub_def vadd_def vdiv_def)

section \<open>The result of \<open>collide\<close> as a translation\<close>

subsection \<open>The loop over the candidate axes\<close>








subsection \<open>Translating a shape\<close>

















subsection \<open>Two squares, and a circle beside a sheared box\<close>





















end
